theory Spec2Isabelle
  imports Complex_Main "HOL-Library.Sublist" "HOL-Library.AList"
begin

section \<open>Python values, exceptions and results\<close>

text \<open>
  The repository is a Python program (\<^verbatim>\<open>main.py\<close>, \<^verbatim>\<open>utils/utils.py\<close>,
  \<^verbatim>\<open>cogs/example.py\<close>) on top of the disnake library. A call either returns a value or
  raises; \<open>outcome\<close> makes that explicit. Methods that mutate an object take the object
  and return it updated next to their outcome.
\<close>

subsection \<open>JSON documents and the schema validator\<close>

text \<open>
  What \<^verbatim>\<open>json.load\<close> returns: \<^verbatim>\<open>None\<close>, \<^verbatim>\<open>bool\<close>, \<^verbatim>\<open>int\<close>, \<^verbatim>\<open>float\<close>, \<^verbatim>\<open>str\<close>,
  \<^verbatim>\<open>list\<close> and \<^verbatim>\<open>dict\<close> (an association list in insertion order, looked up with
  \<open>map_of\<close>).
\<close>

datatype json =
    JNull
  | JBool bool
  | JInt int
  | JFloat real
  | JStr string
  | JArr "json list"
  | JObj "(string \<times> json) list"

datatype json_type = TObject | TString | TArray | TBoolean | TNull | TNumber | TInteger

text \<open>A schema with the three keywords \<^verbatim>\<open>CONFIG_SCHEMA\<close> uses: type, properties, required.\<close>

datatype schema = Schema (sch_type: "json_type option")
                         (sch_properties: "(string \<times> schema) list")
                         (sch_required: "string list")

text \<open>
  The messages of \<^verbatim>\<open>jsonschema.ValidationError\<close>: \<^verbatim>\<open>"<instance> is not of type '<type>'"\<close>
  and \<^verbatim>\<open>"'<name>' is a required property"\<close>.
\<close>

datatype validation_error = NotOfType json json_type | RequiredProperty string

subsection \<open>Exceptions\<close>

datatype py_exc =
    AttributeError string
  | TypeError string
  | NameError string
  | FileNotFoundError
  | JSONDecodeError
  | ValidationError validation_error
  | ExtensionNotFound string
  | OtherException string string
  | SystemExit
  | KeyboardInterrupt
  | OtherBaseException string string

text \<open>
  \<open>OtherException c msg\<close> is an instance of any other class \<open>c\<close> derived from
  \<^verbatim>\<open>Exception\<close>; \<open>OtherBaseException c msg\<close> is an instance of any other class derived from
  \<^verbatim>\<open>BaseException\<close> only (\<^verbatim>\<open>GeneratorExit\<close>, \<^verbatim>\<open>asyncio.CancelledError\<close>).

  \<^verbatim>\<open>except Exception\<close> catches the subclasses of \<^verbatim>\<open>Exception\<close>; \<^verbatim>\<open>SystemExit\<close>,
  \<^verbatim>\<open>KeyboardInterrupt\<close> and the other classes derived from \<^verbatim>\<open>BaseException\<close> only pass
  through it.
\<close>

fun is_Exception :: "py_exc \<Rightarrow> bool" where
  "is_Exception SystemExit = False"
| "is_Exception KeyboardInterrupt = False"
| "is_Exception (OtherBaseException c msg) = False"
| "is_Exception _ = True"

datatype 'a outcome = Return 'a | Raise py_exc

definition bind_outcome :: "'a outcome \<Rightarrow> ('a \<Rightarrow> 'b outcome) \<Rightarrow> 'b outcome" where
  "bind_outcome r f = (case r of Return x \<Rightarrow> f x | Raise e \<Rightarrow> Raise e)"

subsection \<open>Objects as the formatting code observes them\<close>

text \<open>
  The error table of \<^verbatim>\<open>main.py\<close> reads attributes of the error instance and renders them
  with \<^verbatim>\<open>str\<close>, \<^verbatim>\<open>repr\<close> and \<^verbatim>\<open>format\<close>. A Python value is given by what these
  observations return: \<open>py_str\<close> is \<^verbatim>\<open>str(v)\<close>, \<open>py_repr\<close> is \<^verbatim>\<open>repr(v)\<close>,
  \<open>py_text\<close> is the text when \<open>v\<close> is a \<^verbatim>\<open>str\<close>, \<open>py_fmt2f\<close> is
  \<^verbatim>\<open>format(v, ".2f")\<close> when \<open>v\<close> is a number, \<open>py_items\<close> are the elements when \<open>v\<close>
  is a sequence, and \<open>py_attrs\<close> are the attributes.
\<close>

datatype pyval = PyVal (py_str: string) (py_repr: string) (py_text: "string option")
                       (py_fmt2f: "string option") (py_items: "pyval list option")
                       (py_attrs: "(string \<times> pyval) list")

text \<open>
  A \<^verbatim>\<open>str\<close> with text \<open>s\<close> whose \<^verbatim>\<open>repr\<close> is \<open>r\<close>; a list rendered as \<open>r\<close>; a
  number rendered as \<open>s\<close>, and as \<open>f\<close> with two decimals; a plain object rendered as \<open>s\<close>.
\<close>

definition str_val :: "string \<Rightarrow> string \<Rightarrow> pyval" where
  "str_val s r = PyVal s r (Some s) None None []"

definition list_val :: "string \<Rightarrow> pyval list \<Rightarrow> pyval" where
  "list_val r xs = PyVal r r None None (Some xs) []"

definition num_val :: "string \<Rightarrow> string \<Rightarrow> pyval" where
  "num_val s f = PyVal s s None (Some f) None []"

definition obj_val :: "string \<Rightarrow> (string \<times> pyval) list \<Rightarrow> pyval" where
  "obj_val s attrs = PyVal s s None None None attrs"

definition getattr :: "pyval \<Rightarrow> string \<Rightarrow> pyval outcome" where
  "getattr obj name =
     (case map_of (py_attrs obj) name of
        Some v \<Rightarrow> Return v
      | None \<Rightarrow> Raise (AttributeError name))"

text \<open>\<^verbatim>\<open>a.b.c\<close>: an attribute of the result of an earlier access.\<close>

definition attr :: "pyval outcome \<Rightarrow> string \<Rightarrow> pyval outcome" where
  "attr r name = bind_outcome r (\<lambda>v. getattr v name)"

subsection \<open>Formatted string literals\<close>

text \<open>
  An f-string is the list of its parts, evaluated left to right; the first part that raises
  ends the evaluation. \<open>lit\<close> is literal text, \<open>fmt\<close> is \<^verbatim>\<open>{e}\<close>, \<open>fmt_r\<close> is
  \<^verbatim>\<open>{e!r}\<close> and \<open>fmt_2f\<close> is \<^verbatim>\<open>{e:.2f}\<close>.
\<close>

fun fstring :: "string outcome list \<Rightarrow> string outcome" where
  "fstring [] = Return []"
| "fstring (p # ps) =
     (case p of
        Raise e \<Rightarrow> Raise e
      | Return s \<Rightarrow> (case fstring ps of Raise e \<Rightarrow> Raise e | Return r \<Rightarrow> Return (s @ r)))"

definition lit :: "string \<Rightarrow> string outcome" where
  "lit s = Return s"

definition fmt :: "pyval outcome \<Rightarrow> string outcome" where
  "fmt r = bind_outcome r (\<lambda>v. Return (py_str v))"

definition fmt_r :: "pyval outcome \<Rightarrow> string outcome" where
  "fmt_r r = bind_outcome r (\<lambda>v. Return (py_repr v))"

definition fmt_2f :: "pyval outcome \<Rightarrow> string outcome" where
  "fmt_2f r = bind_outcome r (\<lambda>v.
     case py_fmt2f v of
       Some s \<Rightarrow> Return s
     | None \<Rightarrow> Raise (TypeError ''unsupported format string''))"

subsection \<open>String methods\<close>

text \<open>\<^verbatim>\<open>sep.join(xs)\<close> on a list of strings.\<close>

fun join :: "string \<Rightarrow> string list \<Rightarrow> string" where
  "join sep [] = []"
| "join sep [x] = x"
| "join sep (x # y # ys) = x @ sep @ join sep (y # ys)"

text \<open>The texts of a list whose items must all be \<^verbatim>\<open>str\<close>, as \<^verbatim>\<open>join\<close> requires.\<close>

fun texts :: "pyval list \<Rightarrow> string list outcome" where
  "texts [] = Return []"
| "texts (v # vs) =
     (case py_text v of
        None \<Rightarrow> Raise (TypeError ''sequence item: expected str instance'')
      | Some s \<Rightarrow> (case texts vs of Raise e \<Rightarrow> Raise e | Return ss \<Rightarrow> Return (s # ss)))"

definition items :: "pyval outcome \<Rightarrow> pyval list outcome" where
  "items r = bind_outcome r (\<lambda>v.
     case py_items v of
       Some xs \<Rightarrow> Return xs
     | None \<Rightarrow> Raise (TypeError ''object is not iterable''))"

definition join_attr :: "string \<Rightarrow> pyval outcome \<Rightarrow> string outcome" where
  "join_attr sep r =
     bind_outcome (items r) (\<lambda>xs. bind_outcome (texts xs) (\<lambda>ss. Return (join sep ss)))"

text \<open>
  \<^verbatim>\<open>s.replace(old, new)\<close> for a non-empty \<open>old\<close>: occurrences are replaced left to right
  without overlap; the counter skips the rest of an occurrence just replaced.
\<close>

fun replace_from :: "string \<Rightarrow> string \<Rightarrow> nat \<Rightarrow> string \<Rightarrow> string" where
  "replace_from old new k [] = []"
| "replace_from old new (Suc k) (c # cs) = replace_from old new k cs"
| "replace_from old new 0 (c # cs) =
     (if prefix old (c # cs) then new @ replace_from old new (length old - 1) cs
      else c # replace_from old new 0 cs)"

definition py_replace :: "string \<Rightarrow> string \<Rightarrow> string \<Rightarrow> string" where
  "py_replace old new s = replace_from old new 0 s"

text \<open>
  \<^verbatim>\<open>s.title()\<close> on ASCII text: a letter that follows a letter is lower-cased, any other
  letter is upper-cased, other characters are kept.
\<close>

definition is_lower :: "char \<Rightarrow> bool" where
  "is_lower c = (97 \<le> (of_char c :: nat) \<and> (of_char c :: nat) \<le> 122)"

definition is_upper :: "char \<Rightarrow> bool" where
  "is_upper c = (65 \<le> (of_char c :: nat) \<and> (of_char c :: nat) \<le> 90)"

definition to_upper :: "char \<Rightarrow> char" where
  "to_upper c = (if is_lower c then char_of ((of_char c :: nat) - 32) else c)"

definition to_lower :: "char \<Rightarrow> char" where
  "to_lower c = (if is_upper c then char_of ((of_char c :: nat) + 32) else c)"

fun title_from :: "bool \<Rightarrow> string \<Rightarrow> string" where
  "title_from prev [] = []"
| "title_from prev (c # cs) =
     (if is_lower c \<or> is_upper c
      then (if prev then to_lower c else to_upper c) # title_from True cs
      else c # title_from False cs)"

definition py_title :: "string \<Rightarrow> string" where
  "py_title s = title_from False s"

text \<open>\<^verbatim>\<open>str(n)\<close> for a natural number, as \<^verbatim>\<open>{len(xs)}\<close> renders it.\<close>

fun string_of_nat :: "nat \<Rightarrow> string" where
  "string_of_nat n =
     (if n < 10 then [char_of (48 + n)]
      else string_of_nat (n div 10) @ [char_of (48 + n mod 10)])"


section \<open>The error presenter of \<^verbatim>\<open>main.py\<close>\<close>

subsection \<open>\<^verbatim>\<open>ErrorEmbed.create_error_embed\<close>\<close>

datatype colour = Red

record embed =
  title :: string
  description :: string
  color :: colour

definition NL :: string where
  "NL = [CHR 0x0A]"

text \<open>
  \<^verbatim>\<open>additional_info\<close> defaults to \<^verbatim>\<open>None\<close>; \<^verbatim>\<open>None\<close> and the empty string are both
  false in the conditional expression.
\<close>

definition create_error_embed :: "string \<Rightarrow> string option \<Rightarrow> embed" where
  "create_error_embed error additional_info =
     \<lparr> title = ''__An error occurred__'',
       description = ''**Error:**'' @ NL @ error @ NL @ NL @
         (case additional_info of
            None \<Rightarrow> []
          | Some info \<Rightarrow> if info \<noteq> [] then ''**Additional info:**'' @ NL @ info else []),
       color = Red \<rparr>"

subsection \<open>The error classes and the table of \<^verbatim>\<open>Bot._get_error_embed\<close>\<close>

text \<open>
  The keys of the table are classes of \<^verbatim>\<open>disnake.ext.commands.errors\<close>; a class is
  identified by its name. \<^verbatim>\<open>errors.BadColorArgument\<close> is the library's alias of
  \<^verbatim>\<open>errors.BadColourArgument\<close>, so both expressions are the same key.
\<close>

type_synonym error_class = string

text \<open>An error instance: \<^verbatim>\<open>type(error)\<close> and the object itself.\<close>

datatype command_error = CommandError (error_type: error_class) (error_obj: pyval)

text \<open>
  The list comprehension of the two permission entries: every item of
  \<^verbatim>\<open>error.missing_permissions\<close> goes through
  \<^verbatim>\<open>replace("_", " ").replace("guild", "server").title()\<close> between two backquotes.
\<close>

fun permission_names :: "pyval list \<Rightarrow> string list outcome" where
  "permission_names [] = Return []"
| "permission_names (perm # perms) =
     (case py_text perm of
        None \<Rightarrow> Raise (AttributeError ''replace'')
      | Some s \<Rightarrow>
          (case permission_names perms of
             Raise e \<Rightarrow> Raise e
           | Return ss \<Rightarrow>
               Return ((''`'' @ py_title (py_replace ''guild'' ''server'' (py_replace ''_'' '' '' s))
                        @ ''`'') # ss)))"

definition join_permissions :: "pyval outcome \<Rightarrow> string outcome" where
  "join_permissions r =
     bind_outcome (items r) (\<lambda>xs.
       bind_outcome (permission_names xs) (\<lambda>ss. Return (join '', '' ss)))"

text \<open>\<^verbatim>\<open>{len(e)}\<close>.\<close>

definition fmt_len :: "pyval outcome \<Rightarrow> string outcome" where
  "fmt_len r = bind_outcome r (\<lambda>v.
     case py_items v of
       Some xs \<Rightarrow> Return (string_of_nat (length xs))
     | None \<Rightarrow> Raise (TypeError ''object has no len()''))"

text \<open>
  The dictionary display of \<^verbatim>\<open>_get_error_embed\<close>, entry by entry in source order: the
  key, the title and the detail. The detail is a function of the error because the display is
  evaluated on every call, with the instance at hand.
\<close>

definition error_map :: "(error_class \<times> string \<times> (pyval \<Rightarrow> string outcome)) list" where
  "error_map = [
    (''ExpectedClosingQuoteError'', ''Expected closing quote'',
      (\<lambda>error. fstring [lit ''Closing quote: '', fmt (getattr error ''close_quote'')])),
    (''ConversionError'', ''Conversion error'',
      (\<lambda>error. fstring [lit ''Failed to convert argument: '', fmt (getattr error ''converter''),
                         lit (NL @ ''Original Exception: ''), fmt (getattr error ''original'')])),
    (''MissingRequiredArgument'', ''Missing required argument'',
      (\<lambda>error. fstring [lit ''The argument `'', fmt (attr (getattr error ''param'') ''name''),
                         lit ''` is required but was not provided.''])),
    (''TooManyArguments'', ''Too many arguments'',
      (\<lambda>error. lit ''You have provided too many arguments for this command.'')),
    (''BadArgument'', ''Bad argument'',
      (\<lambda>error. lit ''One or more arguments provided are invalid.'')),
    (''CheckFailure'', ''Check failure'',
      (\<lambda>error. lit ''You do not have permission to run this command.'')),
    (''CommandNotFound'', ''Command not found'',
      (\<lambda>error. lit ''The command you tried to invoke does not exist.'')),
    (''DisabledCommand'', ''Disabled command'',
      (\<lambda>error. lit ''This command is currently disabled.'')),
    (''CommandInvokeError'', ''Command invocation error'',
      (\<lambda>error. fstring [lit ''The command raised an error: '', fmt (getattr error ''original'')])),
    (''CommandOnCooldown'', ''Command on cooldown'',
      (\<lambda>error. fstring [lit ''You need to wait `'', fmt_2f (getattr error ''retry_after''),
                         lit ''` seconds before using this command again.''])),
    (''MaxConcurrencyReached'', ''Max concurrency reached'',
      (\<lambda>error. fstring [lit ''This command is currently being used by too many users ('',
                         fmt (getattr error ''number''), lit ''). Please try again later.''])),
    (''UserInputError'', ''User input error'',
      (\<lambda>error. lit ''There was a problem with your input. Please check your command and try again.'')),
    (''ObjectNotFound'', ''Object not found'',
      (\<lambda>error. fstring [lit ''The specified object could not be found. Object: `'',
                         fmt (getattr error ''argument''), lit ''`''])),
    (''MemberNotFound'', ''Member not found'',
      (\<lambda>error. fstring [lit ''The specified member `'', fmt (getattr error ''argument''),
                         lit ''` could not be found.''])),
    (''GuildNotFound'', ''Guild not found'',
      (\<lambda>error. fstring [lit ''The specified guild `'', fmt (getattr error ''argument''),
                         lit ''` could not be found.''])),
    (''UserNotFound'', ''User not found'',
      (\<lambda>error. fstring [lit ''The specified user `'', fmt (getattr error ''argument''),
                         lit ''` could not be found.''])),
    (''ChannelNotFound'', ''Channel not found'',
      (\<lambda>error. fstring [lit ''The specified channel `'', fmt (getattr error ''argument''),
                         lit ''` could not be found.''])),
    (''ThreadNotFound'', ''Thread not found'',
      (\<lambda>error. fstring [lit ''The specified thread `'', fmt (getattr error ''argument''),
                         lit ''` could not be found.''])),
    (''ChannelNotReadable'', ''Channel not readable'',
      (\<lambda>error. fstring [lit ''The bot cannot read messages in `'',
                         fmt (attr (getattr error ''argument'') ''mention''), lit ''` (`'',
                         fmt (attr (getattr error ''argument'') ''id''), lit ''`).''])),
    (''BadColourArgument'', ''Invalid color argument'',
      (\<lambda>error. fstring [lit ''The specified color `'', fmt (getattr error ''argument''),
                         lit ''` is not valid.''])),
    (''RoleNotFound'', ''Role not found'',
      (\<lambda>error. fstring [lit ''The specified role `'', fmt (getattr error ''argument''),
                         lit ''` could not be found.''])),
    (''BadInviteArgument'', ''Invalid invite'',
      (\<lambda>error. fstring [lit ''The specified invite link `'', fmt (getattr error ''argument''),
                         lit ''` is invalid or expired.''])),
    (''EmojiNotFound'', ''Emoji not found'',
      (\<lambda>error. fstring [lit ''The specified emoji `'', fmt (getattr error ''argument''),
                         lit ''` could not be found.''])),
    (''GuildStickerNotFound'', ''Sticker not found'',
      (\<lambda>error. fstring [lit ''The specified sticker `'', fmt (getattr error ''argument''),
                         lit ''` could not be found.''])),
    (''GuildScheduledEventNotFound'', ''Scheduled event not found'',
      (\<lambda>error. fstring [lit ''The specified scheduled event `'', fmt (getattr error ''argument''),
                         lit ''` could not be found.''])),
    (''PartialEmojiConversionFailure'', ''Partial emoji conversion failure'',
      (\<lambda>error. fstring [lit ''The specified emoji `'', fmt (getattr error ''argument''),
                         lit ''` could not be converted.''])),
    (''BadBoolArgument'', ''Bad boolean argument'',
      (\<lambda>error. fstring [lit ''The specified boolean argument `'', fmt (getattr error ''argument''),
                         lit ''` is not recognized.''])),
    (''LargeIntConversionFailure'', ''Large integer conversion failure'',
      (\<lambda>error. fstring [lit ''The specified argument `'', fmt (getattr error ''argument''),
                         lit ''` could not be converted to an integer.''])),
    (''DisabledCommand'', ''Disabled command'',
      (\<lambda>error. lit ''This command is currently disabled.'')),
    (''MissingRole'', ''Missing role'',
      (\<lambda>error. fstring [lit ''You are missing `'', fmt_r (getattr error ''missing_role''),
                         lit ''` to run this command.''])),
    (''BotMissingRole'', ''Bot missing role'',
      (\<lambda>error. fstring [lit ''The bot is missing `'', fmt_r (getattr error ''missing_role''),
                         lit ''` to run this command.''])),
    (''MissingAnyRole'', ''Missing any role'',
      (\<lambda>error. fstring [lit ''You are missing at least one of these roles to run this command: '',
                         join_attr '', '' (getattr error ''missing_roles'')])),
    (''BotMissingAnyRole'', ''Bot missing any role'',
      (\<lambda>error. fstring [lit ''The bot is missing at least one of these roles to run this command: '',
                         join_attr '', '' (getattr error ''missing_roles'')])),
    (''MissingPermissions'', ''Missing permissions'',
      (\<lambda>error. fstring [lit ''You are missing '',
                         join_permissions (getattr error ''missing_permissions''),
                         lit '' permission(s) to run this command.''])),
    (''BotMissingPermissions'', ''Bot missing permissions'',
      (\<lambda>error. fstring [lit ''The bot is missing '',
                         join_permissions (getattr error ''missing_permissions''),
                         lit '' permission(s) to run this command.''])),
    (''NSFWChannelRequired'', ''NSFW channel required'',
      (\<lambda>error. lit ''This command can only be used in NSFW channels.'')),
    (''BadUnionArgument'', ''Bad union argument'',
      (\<lambda>error. lit ''The argument could not be converted to any of the expected types.'')),
    (''BadLiteralArgument'', ''Bad literal argument'',
      (\<lambda>error. lit ''The argument did not match any of the expected literal values.'')),
    (''ArgumentParsingError'', ''Argument parsing error'',
      (\<lambda>error. lit ''There was an issue while parsing your input.'')),
    (''UnexpectedQuoteError'', ''Unexpected quote error'',
      (\<lambda>error. fstring [lit ''Unexpected quote mark: '', fmt_r (getattr error ''quote''),
                         lit '' found in input.''])),
    (''InvalidEndOfQuotedStringError'', ''Invalid end of quoted string'',
      (\<lambda>error. fstring [lit ''Expected space after closing quote but received: '',
                         fmt_r (getattr error ''char''), lit ''.''])),
    (''ExtensionError'', ''Extension error'',
      (\<lambda>error. fstring [lit ''An error occurred with an extension: '', fmt (getattr error ''name''),
                         lit ''.''])),
    (''ExtensionAlreadyLoaded'', ''Extension already loaded'',
      (\<lambda>error. fstring [lit ''The extension `'', fmt (getattr error ''name''),
                         lit ''` is already loaded.''])),
    (''ExtensionNotLoaded'', ''Extension not loaded'',
      (\<lambda>error. fstring [lit ''The extension `'', fmt (getattr error ''name''),
                         lit ''` has not been loaded.''])),
    (''NoEntryPointError'', ''No entry point error'',
      (\<lambda>error. fstring [lit ''The extension `'', fmt (getattr error ''name''),
                         lit (''` has no '' @ [CHR 0x27] @ ''setup'' @ [CHR 0x27] @ '' function.'')])),
    (''ExtensionFailed'', ''Extension failed'',
      (\<lambda>error. fstring [lit ''The extension `'', fmt (getattr error ''name''),
                         lit ''` failed to load: '', fmt (getattr error ''original'')])),
    (''ExtensionNotFound'', ''Extension not found'',
      (\<lambda>error. fstring [lit ''The extension `'', fmt (getattr error ''name''),
                         lit ''` could not be found.''])),
    (''CommandRegistrationError'', ''Command registration error'',
      (\<lambda>error. fstring [lit ''The command `'', fmt (getattr error ''name''),
                         lit ''` is already an existing command or alias.''])),
    (''FlagError'', ''Flag error'',
      (\<lambda>error. lit ''There was an issue with parsing flags.'')),
    (''TooManyFlags'', ''Too many flags'',
      (\<lambda>error. fstring [lit ''Flag `'', fmt (attr (getattr error ''flag'') ''name''),
                         lit ''` received too many values. Expected '',
                         fmt (attr (getattr error ''flag'') ''max_args''),
                         lit '' but received '', fmt_len (getattr error ''values''), lit ''.''])),
    (''BadFlagArgument'', ''Bad flag argument'',
      (\<lambda>error. fstring [lit ''Could not convert to `'',
                         fmt (attr (attr (getattr error ''flag'') ''annotation'') ''__name__''),
                         lit ''` for flag `'', fmt (attr (getattr error ''flag'') ''name''),
                         lit ''`.''])),
    (''MissingRequiredFlag'', ''Missing required flag'',
      (\<lambda>error. fstring [lit ''Flag `'', fmt (attr (getattr error ''flag'') ''name''),
                         lit ''` is required and missing.''])),
    (''MissingFlagArgument'', ''Missing flag argument'',
      (\<lambda>error. fstring [lit ''Flag `'', fmt (attr (getattr error ''flag'') ''name''),
                         lit ''` does not have an argument.''])),
    (''PrivateMessageOnly'', ''Private message only'',
      (\<lambda>error. lit ''This command can only be used in a private message.'')),
    (''NoPrivateMessage'', ''No private message'',
      (\<lambda>error. lit ''This command cannot be used in a private message.'')),
    (''NotOwner'', ''Not owner'',
      (\<lambda>error. lit ''You are not the owner of this bot.'')),
    (''CheckAnyFailure'', ''Check Failed'',
      (\<lambda>error. lit ''You do not have permission to run this command.'')),
    (''MessageNotFound'', ''Message not found'',
      (\<lambda>error. fstring [lit ''The specified message `'', fmt (getattr error ''argument''),
                         lit ''` could not be found.''])),
    (''BadColourArgument'', ''Bad color argument'',
      (\<lambda>error. fstring [lit ''The specified color `'', fmt (getattr error ''argument''),
                         lit ''` is not valid.'']))
  ]"

text \<open>
  Building the dictionary evaluates every entry in order; an entry that raises ends the
  function. A key that occurs again replaces the value stored for it, as \<open>AList.update\<close>
  does.
\<close>

fun build_dict ::
  "(error_class \<times> string \<times> (pyval \<Rightarrow> string outcome)) list \<Rightarrow> pyval \<Rightarrow>
   (error_class \<times> string \<times> string) list \<Rightarrow> (error_class \<times> string \<times> string) list outcome" where
  "build_dict [] error acc = Return acc"
| "build_dict ((k, t, detail) # es) error acc =
     (case detail error of
        Raise e \<Rightarrow> Raise e
      | Return d \<Rightarrow> build_dict es error (AList.update k (t, d) acc))"

definition default_error :: "string \<times> string" where
  "default_error = (''Unknown error'', ''An unexpected error occurred. Please try again later.'')"

text \<open>
  \<^verbatim>\<open>Bot._get_error_embed\<close>: the dictionary is built first, then
  \<^verbatim>\<open>error_map.get(type(error), default_error)\<close> is unpacked into
  \<^verbatim>\<open>create_error_embed\<close>.
\<close>

definition get_error_embed :: "command_error \<Rightarrow> embed outcome" where
  "get_error_embed error =
     (case build_dict error_map (error_obj error) [] of
        Raise e \<Rightarrow> Raise e
      | Return m \<Rightarrow>
          (case map_of m (error_type error) of
             Some (t, d) \<Rightarrow> Return (create_error_embed t (Some d))
           | None \<Rightarrow> Return (create_error_embed (fst default_error) (Some (snd default_error)))))"

text \<open>
  The titles the presenter can hand to \<^verbatim>\<open>create_error_embed\<close>: those of the table and
  the one of the fallback pair.
\<close>

definition presenter_titles :: "string list" where
  "presenter_titles = map (\<lambda>entry. fst (snd entry)) error_map @ [fst default_error]"

subsection \<open>Logging\<close>

text \<open>
  The process-wide logger \<^verbatim>\<open>"BOT"\<close> is the list of the records written so far. A record
  is its level and its message; the messages keep the values their f-strings interpolate:
  \<^item> \<open>LoggedInAs u\<close>: \<^verbatim>\<open>"Logged in as {self.user}"\<close>
  \<^item> \<open>LoadedCogs cs\<close>: \<^verbatim>\<open>"Loaded cogs: {cogs}"\<close>
  \<^item> \<open>FailedToLoadCogs es\<close>: \<^verbatim>\<open>"Failed to load cogs: {loading_errors}"\<close>
  \<^item> \<open>FailedToLoadCog f e\<close>: \<^verbatim>\<open>"Failed to load cog {file}: {e}"\<close>
  \<^item> \<open>ErrorInCommand n e\<close>: \<^verbatim>\<open>"Error occurred in command '{name}': {error}"\<close>
  \<^item> \<open>ConfigFileNotFound p\<close>: \<^verbatim>\<open>"Config file '{self.config_file}' not found."\<close>
  \<^item> \<open>ConfigLoaded\<close>: \<^verbatim>\<open>"Configuration loaded successfully."\<close>
  \<^item> \<open>JSONDecodeFailed\<close>: \<^verbatim>\<open>"Error decoding JSON from the config file."\<close>
  \<^item> \<open>ConfigValidationError ve\<close>: \<^verbatim>\<open>"Configuration validation error: {ve.message}"\<close>
  \<^item> \<open>UnexpectedConfigError e\<close>:
    \<^verbatim>\<open>"An unexpected error occurred while loading config: {e}"\<close>
\<close>

datatype log_level = INFO | WARNING | ERROR

datatype log_message =
    LoggedInAs string
  | LoadedCogs "string list"
  | FailedToLoadCogs "(string \<times> py_exc) list"
  | FailedToLoadCog string py_exc
  | ErrorInCommand "string option" string
  | ConfigFileNotFound string
  | ConfigLoaded
  | JSONDecodeFailed
  | ConfigValidationError validation_error
  | UnexpectedConfigError py_exc

type_synonym log_record = "log_level \<times> log_message"

subsection \<open>\<^verbatim>\<open>Bot.on_slash_command_error\<close>\<close>

text \<open>
  An interaction: the command name of \<^verbatim>\<open>interaction.data.get('name')\<close> and the messages
  sent in reply, each a payload with its \<^verbatim>\<open>ephemeral\<close> flag.
\<close>

datatype payload = Content string | Embedded embed

record interaction =
  command_name :: "string option"
  responses :: "(payload \<times> bool) list"

definition send_message :: "payload \<Rightarrow> bool \<Rightarrow> interaction \<Rightarrow> interaction" where
  "send_message p ephemeral ia = ia\<lparr>responses := responses ia @ [(p, ephemeral)]\<rparr>"

definition on_slash_command_error ::
  "command_error \<Rightarrow> log_record list \<times> interaction \<Rightarrow>
   unit outcome \<times> log_record list \<times> interaction" where
  "on_slash_command_error error st =
     (let logger = fst st @ [(ERROR, ErrorInCommand (command_name (snd st)) (py_str (error_obj error)))]
      in case get_error_embed error of
           Raise e \<Rightarrow> (Raise e, logger, snd st)
         | Return emb \<Rightarrow> (Return (), logger, send_message (Embedded emb) True (snd st)))"

subsection \<open>\<^verbatim>\<open>cogs/example.py\<close>\<close>

text \<open>\<^verbatim>\<open>ExampleCog.hello\<close>: \<^verbatim>\<open>inter.send("Hello!")\<close>, with the default visibility.\<close>

definition hello :: "interaction \<Rightarrow> interaction" where
  "hello ia = send_message (Content ''Hello!'') False ia"


section \<open>\<^verbatim>\<open>utils/utils.py\<close>\<close>

subsection \<open>Paths and slices\<close>

text \<open>\<^verbatim>\<open>os.path.join(a, b)\<close> on a POSIX system.\<close>

definition path_join :: "string \<Rightarrow> string \<Rightarrow> string" where
  "path_join a b =
     (if prefix ''/'' b then b
      else if a = [] \<or> suffix ''/'' a then a @ b
      else a @ ''/'' @ b)"

text \<open>\<^verbatim>\<open>s[:-n]\<close> for a positive \<open>n\<close>: all but the last \<open>n\<close> characters, nothing when there are fewer.\<close>

definition chop :: "nat \<Rightarrow> string \<Rightarrow> string" where
  "chop n s = take (length s - n) s"

text \<open>
  Both managers keep \<^verbatim>\<open>self.bot\<close>, \<^verbatim>\<open>self.path\<close> and \<^verbatim>\<open>self.logger\<close>. The bot is the
  external collaborator; its state \<open>'b\<close> is left open.
\<close>

record 'b manager =
  the_bot :: 'b
  path :: string
  logger :: "log_record list"

definition log_to :: "log_level \<Rightarrow> log_message \<Rightarrow> ('b, 'r) manager_scheme \<Rightarrow> ('b, 'r) manager_scheme" where
  "log_to level msg m = m\<lparr>logger := logger m @ [(level, msg)]\<rparr>"

subsection \<open>\<^verbatim>\<open>CogManager\<close>\<close>

record 'b cog_manager = "'b manager" +
  cogs :: "string list"
  errors :: "(string \<times> py_exc) list"

text \<open>
  What \<^verbatim>\<open>load_cogs\<close> reads from outside: the directory listing \<^verbatim>\<open>os.listdir\<close> and the
  collaborator's \<^verbatim>\<open>load_extension\<close>, which returns or raises and may change the bot.
\<close>

record 'b cog_env =
  listdir :: "string \<Rightarrow> string list outcome"
  load_extension :: "'b \<Rightarrow> string \<Rightarrow> unit outcome \<times> 'b"

text \<open>\<^verbatim>\<open>CogManager.__init__\<close>, with \<^verbatim>\<open>os.getcwd()\<close> as \<open>cwd\<close>.\<close>

definition CogManager_init :: "string \<Rightarrow> 'b \<Rightarrow> string \<Rightarrow> log_record list \<Rightarrow> 'b cog_manager" where
  "CogManager_init cwd b p lg =
     \<lparr> the_bot = b, path = path_join cwd p, logger = lg, cogs = [], errors = [] \<rparr>"

text \<open>
  The two names line 55 and line 58 derive from a file:
  \<^verbatim>\<open>f"{self.path.replace('/', '.')[:-1]}.{file[:-3]}"\<close> goes to the collaborator,
  \<^verbatim>\<open>f"cogs.{file[:-3]}"\<close> keys the failure.
\<close>

definition extension_name :: "string \<Rightarrow> string \<Rightarrow> string" where
  "extension_name p file = chop 1 (py_replace ''/'' ''.'' p) @ ''.'' @ chop 3 file"

definition error_key :: "string \<Rightarrow> string" where
  "error_key file = ''cogs.'' @ chop 3 file"

text \<open>
  The loop of \<^verbatim>\<open>load_cogs\<close> over the listing. An exception that \<^verbatim>\<open>except Exception\<close>
  does not catch leaves the loop and the method, with the manager as it is at that point.
\<close>

fun load_cogs_loop ::
  "('b \<Rightarrow> string \<Rightarrow> unit outcome \<times> 'b) \<Rightarrow> string list \<Rightarrow> 'b cog_manager \<Rightarrow>
   unit outcome \<times> 'b cog_manager" where
  "load_cogs_loop le [] m = (Return (), m)"
| "load_cogs_loop le (file # files) m =
     (if suffix ''.py'' file then
        (case le (the_bot m) (extension_name (path m) file) of
           (Return u, b) \<Rightarrow> load_cogs_loop le files (m\<lparr>the_bot := b, cogs := cogs m @ [file]\<rparr>)
         | (Raise e, b) \<Rightarrow>
             if is_Exception e then
               load_cogs_loop le files
                 (log_to ERROR (FailedToLoadCog file e)
                    (m\<lparr>the_bot := b, errors := AList.update (error_key file) e (errors m)\<rparr>))
             else (Raise e, m\<lparr>the_bot := b\<rparr>))
      else load_cogs_loop le files m)"

definition load_cogs ::
  "'b cog_env \<Rightarrow> 'b cog_manager \<Rightarrow>
   (string list \<times> (string \<times> py_exc) list) outcome \<times> 'b cog_manager" where
  "load_cogs env m =
     (case listdir env (path m) of
        Raise e \<Rightarrow> (Raise e, m)
      | Return files \<Rightarrow>
          (case load_cogs_loop (load_extension env) files m of
             (Raise e, m') \<Rightarrow> (Raise e, m')
           | (Return u, m') \<Rightarrow> (Return (cogs m', errors m'), m')))"

text \<open>
  The outcomes of the load attempts of one pass, in order: for every file of the listing that
  ends in \<^verbatim>\<open>.py\<close>, what the collaborator answers when asked for that file's extension name.
\<close>

fun attempts ::
  "('b \<Rightarrow> string \<Rightarrow> unit outcome \<times> 'b) \<Rightarrow> string \<Rightarrow> 'b \<Rightarrow> string list \<Rightarrow> unit outcome list" where
  "attempts le p b [] = []"
| "attempts le p b (file # files) =
     (if suffix ''.py'' file then
        (case le b (extension_name p file) of (r, b') \<Rightarrow> r # attempts le p b' files)
      else attempts le p b files)"

fun loaded :: "unit outcome \<Rightarrow> bool" where
  "loaded (Return u) = True"
| "loaded (Raise e) = False"

fun caught :: "unit outcome \<Rightarrow> bool" where
  "caught (Return u) = True"
| "caught (Raise e) = is_Exception e"

text \<open>
  The same pass seen file by file: the files whose load attempt returned, and the files whose
  load attempt raised, each with the exception it raised.
\<close>

fun loaded_files ::
  "('b \<Rightarrow> string \<Rightarrow> unit outcome \<times> 'b) \<Rightarrow> string \<Rightarrow> 'b \<Rightarrow> string list \<Rightarrow> string list" where
  "loaded_files le p b [] = []"
| "loaded_files le p b (file # files) =
     (if suffix ''.py'' file then
        (case le b (extension_name p file) of
           (Return u, b') \<Rightarrow> file # loaded_files le p b' files
         | (Raise e, b') \<Rightarrow> loaded_files le p b' files)
      else loaded_files le p b files)"

fun failures ::
  "('b \<Rightarrow> string \<Rightarrow> unit outcome \<times> 'b) \<Rightarrow> string \<Rightarrow> 'b \<Rightarrow> string list \<Rightarrow>
   (string \<times> py_exc) list" where
  "failures le p b [] = []"
| "failures le p b (file # files) =
     (if suffix ''.py'' file then
        (case le b (extension_name p file) of
           (Return u, b') \<Rightarrow> failures le p b' files
         | (Raise e, b') \<Rightarrow> (file, e) # failures le p b' files)
      else failures le p b files)"

text \<open>
  A collaborator that also records the names it is asked for, to observe the calls of a pass.
\<close>

definition recording ::
  "('b \<Rightarrow> string \<Rightarrow> unit outcome \<times> 'b) \<Rightarrow> 'b \<times> string list \<Rightarrow> string \<Rightarrow>
   unit outcome \<times> 'b \<times> string list" where
  "recording le st name = (case le (fst st) name of (r, b) \<Rightarrow> (r, b, snd st @ [name]))"

subsection \<open>\<^verbatim>\<open>Bot.on_ready\<close> of \<^verbatim>\<open>main.py\<close>\<close>

definition on_ready :: "'b cog_env \<Rightarrow> string \<Rightarrow> 'b cog_manager \<Rightarrow> unit outcome \<times> 'b cog_manager" where
  "on_ready env user m =
     (case load_cogs env (log_to INFO (LoggedInAs user) m) of
        (Raise e, m') \<Rightarrow> (Raise e, m')
      | (Return (cs, loading_errors), m') \<Rightarrow>
          (let m'' = log_to INFO (LoadedCogs cs) m'
           in if loading_errors \<noteq> [] then (Return (), log_to ERROR (FailedToLoadCogs loading_errors) m'')
              else (Return (), m'')))"

subsection \<open>\<^verbatim>\<open>ConfigManager\<close>\<close>

definition CONFIG_SCHEMA :: schema where
  "CONFIG_SCHEMA = Schema (Some TObject) [(''TOKEN'', Schema (Some TString) [] [])] [''TOKEN'']"

text \<open>
  \<^verbatim>\<open>jsonschema.validate\<close> for the keywords above. \<^verbatim>\<open>type\<close> checks the instance;
  \<^verbatim>\<open>properties\<close> and \<^verbatim>\<open>required\<close> apply to objects only and pass on anything else.
\<close>

fun is_type :: "json_type \<Rightarrow> json \<Rightarrow> bool" where
  "is_type TObject (JObj kvs) = True"
| "is_type TString (JStr s) = True"
| "is_type TArray (JArr xs) = True"
| "is_type TBoolean (JBool b) = True"
| "is_type TNull JNull = True"
| "is_type TNumber (JInt i) = True"
| "is_type TNumber (JFloat r) = True"
| "is_type TInteger (JInt i) = True"
| "is_type TInteger (JFloat r) = (r = of_int (floor r))"
| "is_type t v = False"

fun iter_errors :: "schema \<Rightarrow> json \<Rightarrow> validation_error list" where
  "iter_errors (Schema ty props req) inst =
     (case ty of
        None \<Rightarrow> []
      | Some t \<Rightarrow> if is_type t inst then [] else [NotOfType inst t])
     @ (case inst of
          JObj kvs \<Rightarrow>
            concat (map (\<lambda>p. case map_of kvs (fst p) of
                                None \<Rightarrow> []
                              | Some v \<Rightarrow> iter_errors (snd p) v) props)
        | _ \<Rightarrow> [])
     @ (case inst of
          JObj kvs \<Rightarrow> map RequiredProperty (filter (\<lambda>name. map_of kvs name = None) req)
        | _ \<Rightarrow> [])"

text \<open>
  \<^verbatim>\<open>validate\<close> raises one of the errors found. For \<^verbatim>\<open>CONFIG_SCHEMA\<close> an instance has at
  most one, so which one is raised needs no further rule.
\<close>

definition validate :: "json \<Rightarrow> schema \<Rightarrow> unit outcome" where
  "validate inst sch =
     (case iter_errors sch inst of
        [] \<Rightarrow> Return ()
      | e # es \<Rightarrow> Raise (ValidationError e))"

record 'b config_manager = "'b manager" +
  config_file :: string
  config :: json

text \<open>
  What \<^verbatim>\<open>load_configs\<close> reads from outside: \<^verbatim>\<open>os.path.exists\<close>, and the result of opening
  the file and \<^verbatim>\<open>json.load\<close> on it.
\<close>

record config_env =
  path_exists :: "string \<Rightarrow> bool"
  read_json :: "string \<Rightarrow> json outcome"

text \<open>
  \<^verbatim>\<open>ConfigManager.load_configs\<close>. The body of the \<^verbatim>\<open>try\<close> runs to its first exception;
  the handlers are tried in source order, the last one catching any other \<^verbatim>\<open>Exception\<close>.
\<close>

definition load_configs :: "config_env \<Rightarrow> 'b config_manager \<Rightarrow> unit outcome \<times> 'b config_manager" where
  "load_configs env m =
     (if \<not> path_exists env (config_file m)
      then (Return (), log_to ERROR (ConfigFileNotFound (config_file m)) m)
      else
        (case bind_outcome (read_json env (config_file m)) (\<lambda>config_data.
                bind_outcome (validate config_data CONFIG_SCHEMA) (\<lambda>u. Return config_data)) of
           Return config_data \<Rightarrow> (Return (), log_to INFO ConfigLoaded (m\<lparr>config := config_data\<rparr>))
         | Raise FileNotFoundError \<Rightarrow> (Return (), log_to ERROR (ConfigFileNotFound (config_file m)) m)
         | Raise JSONDecodeError \<Rightarrow> (Return (), log_to ERROR JSONDecodeFailed m)
         | Raise (ValidationError ve) \<Rightarrow> (Return (), log_to ERROR (ConfigValidationError ve) m)
         | Raise e \<Rightarrow>
             if is_Exception e then (Return (), log_to ERROR (UnexpectedConfigError e) m)
             else (Raise e, m)))"

text \<open>\<^verbatim>\<open>ConfigManager.__init__\<close>: the empty configuration, then \<^verbatim>\<open>load_configs\<close>.\<close>

definition ConfigManager_init ::
  "config_env \<Rightarrow> string \<Rightarrow> 'b \<Rightarrow> string \<Rightarrow> log_record list \<Rightarrow> unit outcome \<times> 'b config_manager" where
  "ConfigManager_init env cwd b p lg =
     load_configs env
       \<lparr> the_bot = b, path = path_join cwd p, logger = lg,
         config_file = path_join (path_join cwd p) ''config.json'', config = JObj [] \<rparr>"

text \<open>
  \<^verbatim>\<open>ConfigManager.get_token\<close>: \<^verbatim>\<open>self.config.get("TOKEN")\<close>, the value or \<^verbatim>\<open>None\<close>.
  Only a dictionary has the method.
\<close>

definition get_token :: "'b config_manager \<Rightarrow> json option outcome" where
  "get_token m =
     (case config m of
        JObj kvs \<Rightarrow> Return (map_of kvs ''TOKEN'')
      | _ \<Rightarrow> Raise (AttributeError ''get''))"

text \<open>Whether a document is an object whose \<^verbatim>\<open>TOKEN\<close> is a string.\<close>

definition has_string_token :: "json \<Rightarrow> bool" where
  "has_string_token doc =
     (case doc of
        JObj kvs \<Rightarrow> (case map_of kvs ''TOKEN'' of Some (JStr t) \<Rightarrow> True | _ \<Rightarrow> False)
      | _ \<Rightarrow> False)"


section \<open>Importing \<^verbatim>\<open>utils/utils.py\<close>\<close>

text \<open>
  Importing a module runs its statements in order. An \<^verbatim>\<open>import\<close> binds names; a
  \<^verbatim>\<open>class\<close> statement runs its body and then binds the class name; an assignment
  evaluates its right-hand side. What a \<^verbatim>\<open>def\<close> does with the annotations of its
  signature depends on the interpreter: CPython up to 3.13 evaluates them when the \<^verbatim>\<open>def\<close>
  runs (\<open>Eager\<close>; the module has no \<^verbatim>\<open>from __future__ import annotations\<close>), CPython
  from 3.14 on keeps them unevaluated until they are asked for (\<open>Deferred\<close>). A statement
  is given by the names it binds and the names it evaluates, in order.
\<close>

datatype annotation_mode = Eager | Deferred

datatype class_stmt =
    MethodDef string "string list"
  | ClassAssign string "string list"

datatype module_stmt =
    Import "string list"
  | ClassDef string "class_stmt list"

text \<open>The built-in names the module's annotations refer to; \<^verbatim>\<open>builtins\<close> has no \<^verbatim>\<open>Optional\<close>.\<close>

definition builtins :: "string list" where
  "builtins = [''str'', ''list'', ''dict'', ''int'', ''bool'', ''Exception'', ''len'', ''open'']"

text \<open>Evaluating names in a scope; the first unbound one raises \<^verbatim>\<open>NameError\<close>.\<close>

fun eval_names :: "string list \<Rightarrow> string list \<Rightarrow> unit outcome" where
  "eval_names scope [] = Return ()"
| "eval_names scope (n # ns) =
     (if n \<in> set scope then eval_names scope ns else Raise (NameError n))"

text \<open>The annotations of a \<^verbatim>\<open>def\<close> at the moment the \<^verbatim>\<open>def\<close> runs.\<close>

definition def_annotations :: "annotation_mode \<Rightarrow> string list \<Rightarrow> string list \<Rightarrow> unit outcome" where
  "def_annotations mode scope used = (if mode = Eager then eval_names scope used else Return ())"

fun exec_class_body ::
  "annotation_mode \<Rightarrow> string list \<Rightarrow> string list \<Rightarrow> class_stmt list \<Rightarrow> unit outcome" where
  "exec_class_body mode globals locals [] = Return ()"
| "exec_class_body mode globals locals (MethodDef name used # body) =
     (case def_annotations mode (locals @ globals @ builtins) used of
        Raise e \<Rightarrow> Raise e
      | Return u \<Rightarrow> exec_class_body mode globals (locals @ [name]) body)"
| "exec_class_body mode globals locals (ClassAssign name used # body) =
     (case eval_names (locals @ globals @ builtins) used of
        Raise e \<Rightarrow> Raise e
      | Return u \<Rightarrow> exec_class_body mode globals (locals @ [name]) body)"

fun exec_module :: "annotation_mode \<Rightarrow> string list \<Rightarrow> module_stmt list \<Rightarrow> string list outcome" where
  "exec_module mode globals [] = Return globals"
| "exec_module mode globals (Import names # stmts) = exec_module mode (globals @ names) stmts"
| "exec_module mode globals (ClassDef name body # stmts) =
     (case exec_class_body mode globals [] body of
        Raise e \<Rightarrow> Raise e
      | Return u \<Rightarrow> exec_module mode (globals @ [name]) stmts)"

text \<open>
  \<^verbatim>\<open>from module import name\<close>: the module is executed first; an exception of that run is
  the exception of the import.
\<close>

definition import_from :: "annotation_mode \<Rightarrow> module_stmt list \<Rightarrow> string \<Rightarrow> unit outcome" where
  "import_from mode stmts name =
     (case exec_module mode [] stmts of
        Raise e \<Rightarrow> Raise e
      | Return globals \<Rightarrow>
          if name \<in> set globals then Return ()
          else Raise (OtherException ''ImportError'' name))"

text \<open>
  Asking for the annotations of a function of an imported module (its \<^verbatim>\<open>__annotations__\<close>)
  evaluates the names \<open>used\<close> in the module's namespace, whatever the mode.
\<close>

definition read_annotations ::
  "annotation_mode \<Rightarrow> module_stmt list \<Rightarrow> string list \<Rightarrow> unit outcome" where
  "read_annotations mode stmts used =
     (case exec_module mode [] stmts of
        Raise e \<Rightarrow> Raise e
      | Return globals \<Rightarrow> eval_names (globals @ builtins) used)"

text \<open>
  \<^verbatim>\<open>utils/utils.py\<close>, statement by statement: the six import lines, then the two classes
  with the names their signatures evaluate (\<^verbatim>\<open>self\<close> has no annotation, \<^verbatim>\<open>None\<close> and the
  default \<^verbatim>\<open>"cogs"\<close> are constants).
\<close>

definition utils_module :: "module_stmt list" where
  "utils_module =
     [Import [''os''],
      Import [''json''],
      Import [''logging''],
      Import [''Any'', ''Dict'', ''Tuple''],
      Import [''commands''],
      Import [''validate'', ''ValidationError''],
      ClassDef ''CogManager''
        [MethodDef ''__init__'' [''commands'', ''Any'', ''str''],
         MethodDef ''_setup_logger'' [''logging''],
         MethodDef ''load_cogs'' [''Tuple'', ''list'', ''str'', ''Dict'', ''str'', ''Exception'']],
      ClassDef ''ConfigManager''
        [ClassAssign ''CONFIG_SCHEMA'' [],
         MethodDef ''__init__'' [''commands'', ''Any'', ''str''],
         MethodDef ''_setup_logger'' [''logging''],
         MethodDef ''load_configs'' [],
         MethodDef ''get_token'' [''Optional'', ''str'']]]"

section \<open>Sample inputs\<close>

text \<open>
  The instance \<^verbatim>\<open>errors.MissingRole("Admin")\<close>: its only attribute besides the message is
  \<^verbatim>\<open>missing_role\<close>, the string \<^verbatim>\<open>Admin\<close> with \<^verbatim>\<open>repr\<close> \<^verbatim>\<open>'Admin'\<close>. And a plain
  \<^verbatim>\<open>errors.CommandError("boom")\<close>, a class the table does not name.
\<close>

definition quoted :: "string \<Rightarrow> string" where
  "quoted s = [CHR 0x27] @ s @ [CHR 0x27]"

definition missing_role_admin :: command_error where
  "missing_role_admin =
     CommandError ''MissingRole''
       (obj_val (''Role '' @ quoted ''Admin'' @ '' is required to run this command.'')
          [(''missing_role'', str_val ''Admin'' (quoted ''Admin''))])"

definition plain_command_error :: command_error where
  "plain_command_error = CommandError ''CommandError'' (obj_val ''boom'' [])"

text \<open>
  An object that carries every attribute the table reads; no error class of the library does.
\<close>

definition every_attribute :: "(string \<times> pyval) list" where
  "every_attribute =
     [(''close_quote'', str_val ''}'' (quoted ''}'')),
      (''converter'', obj_val ''MemberConverter'' []),
      (''original'', obj_val ''boom'' []),
      (''param'', obj_val ''user: Member'' [(''name'', str_val ''user'' (quoted ''user''))]),
      (''retry_after'', num_val ''2.5'' ''2.50''),
      (''number'', num_val ''3'' ''3.00''),
      (''argument'', obj_val ''general''
         [(''mention'', str_val ''<#42>'' (quoted ''<#42>'')), (''id'', num_val ''42'' ''42.00'')]),
      (''missing_role'', str_val ''Admin'' (quoted ''Admin'')),
      (''missing_roles'', list_val ''[...]''
         [str_val ''Admin'' (quoted ''Admin''), str_val ''Mod'' (quoted ''Mod'')]),
      (''missing_permissions'', list_val ''[...]''
         [str_val ''manage_guild'' (quoted ''manage_guild''),
          str_val ''ban_members'' (quoted ''ban_members'')]),
      (''quote'', str_val ''}'' (quoted ''}'')),
      (''char'', str_val ''x'' (quoted ''x'')),
      (''name'', str_val ''cogs.example'' (quoted ''cogs.example'')),
      (''flag'', obj_val ''flag''
         [(''name'', str_val ''count'' (quoted ''count'')), (''max_args'', num_val ''1'' ''1.00''),
          (''annotation'', obj_val ''int'' [(''__name__'', str_val ''int'' (quoted ''int''))])]),
      (''values'', list_val ''[...]'' [str_val ''1'' (quoted ''1''), str_val ''2'' (quoted ''2'')])]"

text \<open>
  A collaborator in the manner of \<^verbatim>\<open>load_extension\<close>: the bot keeps the names it has
  loaded; a name loaded before is refused, a name among the importable modules \<open>mods\<close> is
  loaded, any other name is not found.
\<close>

definition bot_loader :: "string list \<Rightarrow> string list \<Rightarrow> string \<Rightarrow> unit outcome \<times> string list" where
  "bot_loader mods ld name =
     (if name \<in> set ld then (Raise (OtherException ''ExtensionAlreadyLoaded'' name), ld)
      else if name \<in> set mods then (Return (), ld @ [name])
      else (Raise (ExtensionNotFound name), ld))"

text \<open>
  A collaborator whose every load raises \<open>e\<close>: with \<open>SystemExit\<close>, units that call
  \<^verbatim>\<open>sys.exit()\<close>; with \<open>KeyboardInterrupt\<close>, a load interrupted from the keyboard.
\<close>

definition raising_loader :: "py_exc \<Rightarrow> unit \<Rightarrow> string \<Rightarrow> unit outcome \<times> unit" where
  "raising_loader e b name = (Raise e, b)"

text \<open>
  A collaborator whose loads all fail, each time with another message: the bot counts the
  attempts and the message carries the count.
\<close>

definition flaky_loader :: "nat \<Rightarrow> string \<Rightarrow> unit outcome \<times> nat" where
  "flaky_loader n name =
     (Raise (OtherException ''ExtensionFailed'' (name @ '', attempt '' @ string_of_nat n)), Suc n)"

text \<open>
  The repository as checked out in \<^verbatim>\<open>/home/user/bot\<close>: \<^verbatim>\<open>cogs/\<close> holds \<^verbatim>\<open>example.py\<close>,
  importable as the module \<^verbatim>\<open>cogs.example\<close>.
\<close>

definition repo_env :: "string list cog_env" where
  "repo_env = \<lparr> listdir = (\<lambda>p. if p = ''/home/user/bot/cogs'' then Return [''example.py'']
                                 else Raise FileNotFoundError),
                load_extension = bot_loader [''cogs.example''] \<rparr>"

definition repo_manager :: "string list cog_manager" where
  "repo_manager = CogManager_init ''/home/user/bot'' [] ''cogs'' []"

text \<open>
  A directory \<^verbatim>\<open>/srv/bot/cogs\<close> with two units and a text file, and a collaborator that accepts
  the name asked for the first unit only.
\<close>

definition two_units_env :: "string list cog_env" where
  "two_units_env = \<lparr> listdir = (\<lambda>p. Return [''a.py'', ''notes.txt'', ''b.py'']),
                     load_extension = bot_loader [''.srv.bot.cog.a''] \<rparr>"

definition two_units_manager :: "string list cog_manager" where
  "two_units_manager = CogManager_init ''/srv/bot'' [] ''cogs'' []"

text \<open>A directory \<^verbatim>\<open>/srv/bot/cogs\<close> with one unit, for the two collaborators above.\<close>

definition raising_env :: "py_exc \<Rightarrow> unit cog_env" where
  "raising_env e = \<lparr> listdir = (\<lambda>p. Return [''a.py'']), load_extension = raising_loader e \<rparr>"

definition raising_manager :: "unit cog_manager" where
  "raising_manager = CogManager_init ''/srv/bot'' () ''cogs'' []"

definition flaky_env :: "nat cog_env" where
  "flaky_env = \<lparr> listdir = (\<lambda>p. Return [''a.py'']), load_extension = flaky_loader \<rparr>"

definition flaky_manager :: "nat cog_manager" where
  "flaky_manager = CogManager_init ''/srv/bot'' 0 ''cogs'' []"

text \<open>Configuration files: \<^verbatim>\<open>{"TOKEN": "abc"}\<close>, \<^verbatim>\<open>{"TOKEN": 5}\<close> and \<^verbatim>\<open>{}\<close>.\<close>

definition config_env_of :: "json \<Rightarrow> config_env" where
  "config_env_of doc = \<lparr> path_exists = (\<lambda>p. True), read_json = (\<lambda>p. Return doc) \<rparr>"

definition fresh_config_manager :: "unit config_manager" where
  "fresh_config_manager =
     \<lparr> the_bot = (), path = path_join ''/srv/bot'' ''data'', logger = [],
       config_file = path_join (path_join ''/srv/bot'' ''data'') ''config.json'', config = JObj [] \<rparr>"


section \<open>Properties of the error presenter\<close>

subsection \<open>Rendering\<close>

text \<open>
  A text without the character \<open>c\<close> cannot straddle an occurrence of \<open>c\<close>: it lies
  before it or after it.
\<close>

lemma sublist_before_or_after:
  assumes "c \<notin> set m" "sublist m (a @ c # b)"
  shows "sublist m a \<or> sublist m b"
proof -
  from assms(2) obtain ps ss where eq: "a @ c # b = ps @ m @ ss"
    by (auto simp: sublist_def)
  then consider us where "a = ps @ us" "us @ c # b = m @ ss"
    | us where "a @ us = ps" "c # b = us @ m @ ss"
    by (auto simp: append_eq_append_conv2)
  then show ?thesis
  proof cases
    case 1
    from 1(2) consider vs where "us = m @ vs" | vs where "us @ vs = m" "c # b = vs @ ss"
      by (auto simp: append_eq_append_conv2)
    then show ?thesis
    proof cases
      case 1
      with \<open>a = ps @ us\<close> have "a = ps @ m @ vs" by simp
      then show ?thesis by simp
    next
      case 2
      with assms(1) have "vs = []" by (cases vs) auto
      with 2 \<open>a = ps @ us\<close> have "a = ps @ m" by simp
      then show ?thesis by simp
    qed
  next
    case 2
    show ?thesis
    proof (cases us)
      case Nil
      with 2 assms(1) have "m = []" by (cases m) auto
      then show ?thesis by simp
    next
      case (Cons u us')
      with 2 have "b = us' @ m @ ss" by simp
      then show ?thesis by simp
    qed
  qed
qed

lemma sublist_across_separator:
  assumes "c \<notin> set m"
  shows "sublist m (a @ c # b) \<longleftrightarrow> sublist m a \<or> sublist m b"
proof
  assume "sublist m (a @ c # b)"
  with assms show "sublist m a \<or> sublist m b" by (rule sublist_before_or_after)
next
  assume "sublist m a \<or> sublist m b"
  then show "sublist m (a @ c # b)"
  proof
    assume "sublist m a"
    then show ?thesis by (meson sublist_append)
  next
    assume "sublist m b"
    then have "sublist m (c # b)" by (simp add: sublist_Cons_right)
    then show ?thesis by (meson sublist_append)
  qed
qed

lemma no_star_no_marker:
  assumes "CHR ''*'' \<notin> set e"
  shows "\<not> sublist ''**Additional info:**'' e"
proof
  assume "sublist ''**Additional info:**'' e"
  then have "set ''**Additional info:**'' \<subseteq> set e" by (rule set_mono_sublist)
  with assms show False by simp
qed

lemma description_marker:
  assumes "\<not> sublist ''**Additional info:**'' error"
  shows "sublist ''**Additional info:**'' (description (create_error_embed error info))
         \<longleftrightarrow> (\<exists>i. info = Some i \<and> i \<noteq> [])"
proof -
  let ?m = "''**Additional info:**''"
  have nl: "CHR 0x0A \<notin> set ?m" by simp
  have hd: "\<not> sublist ?m ''**Error:**''" by (auto dest: sublist_length_le)
  have "sublist ?m (''**Error:**'' @ CHR 0x0A # error @ CHR 0x0A # CHR 0x0A # r) \<longleftrightarrow> sublist ?m r" for r
    using assms hd
    by (simp only: sublist_across_separator[OF nl] append_Nil)
       (simp add: sublist_across_separator[OF nl, of "[]", simplified])
  then show ?thesis
    by (cases info) (auto simp: create_error_embed_def NL_def)
qed

lemma titles_no_star: "t \<in> set presenter_titles \<Longrightarrow> CHR ''*'' \<notin> set t"
  by (auto simp: presenter_titles_def error_map_def default_error_def)

text \<open>
  C7. For every title the presenter can produce and every detail, \<^verbatim>\<open>create_error_embed\<close>
  builds one payload: its title is the fixed \<^verbatim>\<open>__An error occurred__\<close> (the words
  "An error occurred" in underline markup); its body starts with the \<^verbatim>\<open>**Error:**\<close> section
  holding the text passed as \<open>error\<close>; the body contains the \<^verbatim>\<open>**Additional info:**\<close>
  heading if and only if the detail is given and non-empty, and then it ends with that
  section holding the detail.
\<close>

theorem create_error_embed_sections:
  assumes "t \<in> set presenter_titles"
  shows "title (create_error_embed t info) = ''__An error occurred__''
       \<and> sublist ''An error occurred'' (title (create_error_embed t info))
       \<and> prefix (''**Error:**'' @ NL @ t @ NL @ NL) (description (create_error_embed t info))
       \<and> (sublist ''**Additional info:**'' (description (create_error_embed t info))
            \<longleftrightarrow> (\<exists>i. info = Some i \<and> i \<noteq> []))
       \<and> (\<forall>i. info = Some i \<and> i \<noteq> [] \<longrightarrow>
            description (create_error_embed t info)
              = ''**Error:**'' @ NL @ t @ NL @ NL @ ''**Additional info:**'' @ NL @ i)"
proof -
  from assms have "\<not> sublist ''**Additional info:**'' t"
    by (intro no_star_no_marker titles_no_star)
  then have "sublist ''**Additional info:**'' (description (create_error_embed t info))
            \<longleftrightarrow> (\<exists>i. info = Some i \<and> i \<noteq> [])"
    by (rule description_marker)
  moreover have "sublist ''An error occurred'' (''__'' @ ''An error occurred'' @ ''__'')"
    by (rule sublist_appendI)
  then have "sublist ''An error occurred'' (title (create_error_embed t info))"
    by (simp add: create_error_embed_def)
  moreover have "title (create_error_embed t info) = ''__An error occurred__''"
    by (simp add: create_error_embed_def)
  moreover have "prefix (''**Error:**'' @ NL @ t @ NL @ NL) (description (create_error_embed t info))"
    by (simp add: create_error_embed_def)
  moreover have "\<forall>i. info = Some i \<and> i \<noteq> [] \<longrightarrow>
            description (create_error_embed t info)
              = ''**Error:**'' @ NL @ t @ NL @ NL @ ''**Additional info:**'' @ NL @ i"
    by (simp add: create_error_embed_def)
  ultimately show ?thesis by blast
qed

theorem create_error_embed_sections_witness:
  "''Missing role'' \<in> set presenter_titles
   \<and> sublist ''**Additional info:**''
       (description (create_error_embed ''Missing role'' (Some ''You are missing a role.'')))
   \<and> \<not> sublist ''**Additional info:**'' (description (create_error_embed ''Missing role'' (Some [])))
   \<and> \<not> sublist ''**Additional info:**'' (description (create_error_embed ''Missing role'' None))
   \<and> description (create_error_embed ''Missing role'' (Some ''You are missing a role.''))
       = ''**Error:**'' @ NL @ ''Missing role'' @ NL @ NL @ ''**Additional info:**'' @ NL
         @ ''You are missing a role.''"
proof -
  have h: "''Missing role'' \<in> set presenter_titles"
    by (simp add: presenter_titles_def error_map_def)
  have given: "sublist ''**Additional info:**''
       (description (create_error_embed ''Missing role'' (Some ''You are missing a role.'')))"
    using create_error_embed_sections[OF h, of "Some ''You are missing a role.''"] by auto
  have empty: "\<not> sublist ''**Additional info:**''
       (description (create_error_embed ''Missing role'' (Some [])))"
    using create_error_embed_sections[OF h, of "Some []"] by auto
  have none: "\<not> sublist ''**Additional info:**''
       (description (create_error_embed ''Missing role'' None))"
    using create_error_embed_sections[OF h, of None] by auto
  have body: "description (create_error_embed ''Missing role'' (Some ''You are missing a role.''))
       = ''**Error:**'' @ NL @ ''Missing role'' @ NL @ NL @ ''**Additional info:**'' @ NL
         @ ''You are missing a role.''"
    using create_error_embed_sections[OF h, of "Some ''You are missing a role.''"] by auto
  from h given empty none body show ?thesis by (intro conjI)
qed

subsection \<open>The table is built before it is consulted\<close>

text \<open>
  The first entry of the table reads \<^verbatim>\<open>error.close_quote\<close>, whatever the class of the
  error: an instance without that attribute makes \<^verbatim>\<open>_get_error_embed\<close> raise.
\<close>

lemma get_error_embed_without_close_quote:
  "map_of (py_attrs (error_obj e)) ''close_quote'' = None \<Longrightarrow>
   get_error_embed e = Raise (AttributeError ''close_quote'')"
  by (simp add: get_error_embed_def error_map_def getattr_def fmt_def lit_def bind_outcome_def)

text \<open>
  The second entry reads \<^verbatim>\<open>error.converter\<close>. So the function returns only for an
  object that carries both attributes; \<^verbatim>\<open>close_quote\<close> belongs to
  \<^verbatim>\<open>ExpectedClosingQuoteError\<close> and \<^verbatim>\<open>converter\<close> to \<^verbatim>\<open>ConversionError\<close>.
\<close>

lemma get_error_embed_needs_both:
  "map_of (py_attrs (error_obj e)) ''close_quote'' = None
     \<or> map_of (py_attrs (error_obj e)) ''converter'' = None \<Longrightarrow>
   \<exists>a. get_error_embed e = Raise (AttributeError a)"
  by (cases "map_of (py_attrs (error_obj e)) ''close_quote''")
     (auto simp: get_error_embed_def error_map_def getattr_def fmt_def lit_def bind_outcome_def)

text \<open>
  On an object that carries every attribute the table reads, the function does what the table
  says: the entry of the class with the fields substituted, and the fallback pair for a class
  that is not a key.
\<close>

lemma table_on_every_attribute:
  "(case build_dict error_map (obj_val ''e'' every_attribute) [] of
      Raise e \<Rightarrow> False
    | Return m \<Rightarrow>
        map_of m ''MissingRole''
          = Some (''Missing role'', ''You are missing `'' @ quoted ''Admin'' @ ''` to run this command.'')
        \<and> map_of m ''CommandError'' = None)"
  by code_simp

lemma get_error_embed_on_every_attribute:
  "get_error_embed (CommandError ''MissingRole'' (obj_val ''e'' every_attribute))
     = Return (create_error_embed ''Missing role''
         (Some (''You are missing `'' @ quoted ''Admin'' @ ''` to run this command.'')))
   \<and> get_error_embed (CommandError ''CommandError'' (obj_val ''e'' every_attribute))
     = Return (create_error_embed ''Unknown error''
         (Some ''An unexpected error occurred. Please try again later.''))"
  using table_on_every_attribute
  by (simp add: get_error_embed_def default_error_def split: outcome.splits)

text \<open>
  C1. The specification states that \<^verbatim>\<open>_get_error_embed\<close> never raises: it returns the
  table's pair for a class that is a key and the fallback pair for any other class. On
  \<^verbatim>\<open>errors.MissingRole("Admin")\<close>, whose class is a key, and on a plain
  \<^verbatim>\<open>errors.CommandError("boom")\<close>, whose class is not, the function raises
  \<^verbatim>\<open>AttributeError\<close> while it builds the table.
\<close>

theorem get_error_embed_raises:
  "get_error_embed missing_role_admin = Raise (AttributeError ''close_quote'')
   \<and> get_error_embed plain_command_error = Raise (AttributeError ''close_quote'')"
  by (simp add: get_error_embed_without_close_quote missing_role_admin_def
        plain_command_error_def obj_val_def)

text \<open>
  When the embed is built, the handler sends it with \<^verbatim>\<open>ephemeral=True\<close>.
\<close>

lemma on_slash_command_error_sends_private:
  "get_error_embed error = Return emb \<Longrightarrow>
   on_slash_command_error error (lg, ia)
     = (Return (), lg @ [(ERROR, ErrorInCommand (command_name ia) (py_str (error_obj error)))],
        ia\<lparr>responses := responses ia @ [(Embedded emb, True)]\<rparr>)"
  by (simp add: on_slash_command_error_def send_message_def)

text \<open>
  C6. The specification states that a missing-role error is answered with a message visible
  to the invoking user only, whose detail names the missing role. On
  \<^verbatim>\<open>errors.MissingRole("Admin")\<close> the handler logs the error and then raises out of
  \<^verbatim>\<open>_get_error_embed\<close>: no message is sent.
\<close>

theorem on_slash_command_error_missing_role:
  "on_slash_command_error missing_role_admin ([], \<lparr>command_name = Some ''ban'', responses = []\<rparr>)
   = (Raise (AttributeError ''close_quote''),
      [(ERROR, ErrorInCommand (Some ''ban'') (py_str (error_obj missing_role_admin)))],
      \<lparr>command_name = Some ''ban'', responses = []\<rparr>)"
  by (simp add: on_slash_command_error_def get_error_embed_without_close_quote
        missing_role_admin_def obj_val_def)

section \<open>Properties of the module import\<close>

text \<open>
  C8. Where the annotations of a \<^verbatim>\<open>def\<close> are evaluated when the \<^verbatim>\<open>def\<close> runs (CPython
  up to 3.13), running \<^verbatim>\<open>utils/utils.py\<close> raises \<^verbatim>\<open>NameError\<close> for \<^verbatim>\<open>Optional\<close>, the
  return annotation of \<^verbatim>\<open>get_token\<close> (every name evaluated before it is bound), so
  importing \<^verbatim>\<open>CogManager\<close> or \<^verbatim>\<open>ConfigManager\<close> from the module raises the same error.
  Where annotations are deferred (CPython from 3.14 on), both imports succeed, and the
  \<^verbatim>\<open>NameError\<close> is raised only when the annotations of \<^verbatim>\<open>get_token\<close> are read.
\<close>

theorem utils_import_by_mode:
  "exec_module Eager [] utils_module = Raise (NameError ''Optional'')
   \<and> import_from Eager utils_module ''CogManager'' = Raise (NameError ''Optional'')
   \<and> import_from Eager utils_module ''ConfigManager'' = Raise (NameError ''Optional'')
   \<and> import_from Deferred utils_module ''CogManager'' = Return ()
   \<and> import_from Deferred utils_module ''ConfigManager'' = Return ()
   \<and> read_annotations Deferred utils_module [''Optional'', ''str''] = Raise (NameError ''Optional'')"
  by (simp add: import_from_def read_annotations_def def_annotations_def utils_module_def builtins_def)

text \<open>
  Stated for every interpreter, the \<^verbatim>\<open>NameError\<close> on import fails: with deferred
  annotations the module imports.
\<close>

theorem utils_import_deferred_succeeds:
  "import_from Deferred utils_module ''ConfigManager'' = Return ()
   \<and> import_from Deferred utils_module ''CogManager'' = Return ()"
  by (simp add: import_from_def def_annotations_def utils_module_def builtins_def)

section \<open>Properties of the plug-in loader\<close>

subsection \<open>Names\<close>

lemma replace_from_char:
  "replace_from [c] [d] 0 s = map (\<lambda>x. if x = c then d else x) s"
  by (induction s) auto

lemma py_replace_char: "py_replace [c] [d] s = map (\<lambda>x. if x = c then d else x) s"
  by (simp add: py_replace_def replace_from_char)

lemma extension_name_expanded:
  "extension_name p file
     = butlast (map (\<lambda>c. if c = CHR ''/'' then CHR ''.'' else c) p) @ ''.'' @ take (length file - 3) file"
  by (simp add: extension_name_def py_replace_char chop_def butlast_conv_take)

lemma path_join_cogs: "\<exists>x. path_join cwd ''cogs'' = x @ ''cogs''"
  by (auto simp: path_join_def)

lemma cog_prefix_differs: "y @ ''cog.'' \<noteq> ''cogs.''"
proof
  assume eq: "y @ ''cog.'' = ''cogs.''"
  then have "length (y @ ''cog.'') = length ''cogs.''" by (rule arg_cong)
  then have "length y = 1" by simp
  then obtain c where "y = [c]" by (cases y) auto
  with eq show False by simp
qed

lemma extension_name_differs: "extension_name (path_join cwd ''cogs'') file \<noteq> error_key file"
proof -
  obtain x where x: "path_join cwd ''cogs'' = x @ ''cogs''" using path_join_cogs by blast
  have "butlast (y @ ''cogs'') = y @ ''cog''" for y :: string
    by (simp add: butlast_append)
  then show ?thesis
    using cog_prefix_differs[of "map (\<lambda>c. if c = CHR ''/'' then CHR ''.'' else c) x"]
    by (simp add: x extension_name_expanded error_key_def chop_def)
qed

lemma chop_py_inj:
  assumes "suffix ''.py'' f" "suffix ''.py'' g" "chop 3 f = chop 3 g"
  shows "f = g"
proof -
  from assms(1) obtain a where "f = a @ ''.py''" by (auto simp: suffix_def)
  moreover from assms(2) obtain b where "g = b @ ''.py''" by (auto simp: suffix_def)
  ultimately show ?thesis using assms(3) by (simp add: chop_def)
qed

lemma error_key_inj:
  "suffix ''.py'' f \<Longrightarrow> suffix ''.py'' g \<Longrightarrow> error_key f = error_key g \<Longrightarrow> f = g"
  by (auto simp: error_key_def intro: chop_py_inj)

lemma error_key_literal: "error_key file = ''cogs.'' @ take (length file - 3) file"
  by (simp add: error_key_def chop_def)

subsection \<open>The loop\<close>

lemma log_to_simps [simp]:
  "the_bot (log_to l msg m) = the_bot m"
  "path (log_to l msg m) = path m"
  "logger (log_to l msg m) = logger m @ [(l, msg)]"
  by (simp_all add: log_to_def)

lemma log_to_cog_simps [simp]:
  "cogs (log_to l msg m) = cogs m"
  "errors (log_to l msg m) = errors m"
  by (simp_all add: log_to_def)

lemma update_length:
  "length (AList.update k v al) = (if k \<in> fst ` set al then length al else Suc (length al))"
  by (induction al) auto

lemma loop_facts:
  "load_cogs_loop le files m = (r, m') \<Longrightarrow>
     path m' = path m \<and> prefix (cogs m) (cogs m') \<and> fst ` set (errors m) \<subseteq> fst ` set (errors m')"
proof (induction files arbitrary: m)
  case Nil
  then show ?case by simp
next
  case (Cons f files)
  show ?case
  proof (cases "suffix ''.py'' f")
    case False
    with Cons show ?thesis by simp
  next
    case True
    obtain o' b where le: "le (the_bot m) (extension_name (path m) f) = (o', b)"
      by (cases "le (the_bot m) (extension_name (path m) f)")
    show ?thesis
    proof (cases o')
      case (Return u)
      with Cons.prems True le
      have "load_cogs_loop le files (m\<lparr>the_bot := b, cogs := cogs m @ [f]\<rparr>) = (r, m')" by simp
      from Cons.IH[OF this] show ?thesis by (auto dest: append_prefixD)
    next
      case (Raise e)
      show ?thesis
      proof (cases "is_Exception e")
        case False
        with Cons.prems True le Raise show ?thesis by auto
      next
        case exc: True
        with Cons.prems True le Raise
        have "load_cogs_loop le files
                 (log_to ERROR (FailedToLoadCog f e)
                    (m\<lparr>the_bot := b, errors := AList.update (error_key f) e (errors m)\<rparr>)) = (r, m')"
          by simp
        from Cons.IH[OF this] show ?thesis by (auto simp: dom_update)
      qed
    qed
  qed
qed

lemma loop_distinct_keys:
  "load_cogs_loop le files m = (r, m') \<Longrightarrow> distinct (map fst (errors m)) \<Longrightarrow>
   distinct (map fst (errors m'))"
proof (induction files arbitrary: m)
  case Nil
  then show ?case by simp
next
  case (Cons f files)
  show ?case
  proof (cases "suffix ''.py'' f")
    case False
    with Cons show ?thesis by simp
  next
    case True
    obtain o' b where le: "le (the_bot m) (extension_name (path m) f) = (o', b)"
      by (cases "le (the_bot m) (extension_name (path m) f)")
    show ?thesis
    proof (cases o')
      case (Return u)
      with Cons.prems True le
      have "load_cogs_loop le files (m\<lparr>the_bot := b, cogs := cogs m @ [f]\<rparr>) = (r, m')" by simp
      from Cons.IH[OF this] Cons.prems(2) show ?thesis by simp
    next
      case (Raise e)
      show ?thesis
      proof (cases "is_Exception e")
        case False
        with Cons.prems True le Raise show ?thesis by auto
      next
        case exc: True
        with Cons.prems True le Raise
        have "load_cogs_loop le files
                 (log_to ERROR (FailedToLoadCog f e)
                    (m\<lparr>the_bot := b, errors := AList.update (error_key f) e (errors m)\<rparr>)) = (r, m')"
          by simp
        from Cons.IH[OF this] Cons.prems(2) show ?thesis by (simp add: distinct_update)
      qed
    qed
  qed
qed

lemma attempts_length: "length (attempts le p b files) = length (filter (suffix ''.py'') files)"
  by (induction files arbitrary: b) (auto split: prod.splits)

lemma loop_counts:
  assumes "list_all caught (attempts le (path m) (the_bot m) files)"
    and "distinct files"
    and "\<forall>f \<in> set files. suffix ''.py'' f \<longrightarrow> error_key f \<notin> fst ` set (errors m)"
  shows "\<exists>m'. load_cogs_loop le files m = (Return (), m')
           \<and> length (cogs m') = length (cogs m) + length (filter loaded (attempts le (path m) (the_bot m) files))
           \<and> length (errors m') = length (errors m)
               + length (filter (\<lambda>r. \<not> loaded r) (attempts le (path m) (the_bot m) files))"
  using assms
proof (induction files arbitrary: m)
  case Nil
  then show ?case by simp
next
  case (Cons f files)
  show ?case
  proof (cases "suffix ''.py'' f")
    case False
    with Cons.prems have "list_all caught (attempts le (path m) (the_bot m) files)"
      and "distinct files"
      and "\<forall>g \<in> set files. suffix ''.py'' g \<longrightarrow> error_key g \<notin> fst ` set (errors m)"
      by simp_all
    from Cons.IH[OF this] False show ?thesis by simp
  next
    case True
    obtain o' b where le: "le (the_bot m) (extension_name (path m) f) = (o', b)"
      by (cases "le (the_bot m) (extension_name (path m) f)")
    from Cons.prems(1) True le
    have c: "caught o'" and rest: "list_all caught (attempts le (path m) b files)" by simp_all
    from Cons.prems(2) have d: "distinct files" and nf: "f \<notin> set files" by simp_all
    show ?thesis
    proof (cases o')
      case (Return u)
      let ?m1 = "m\<lparr>the_bot := b, cogs := cogs m @ [f]\<rparr>"
      have "list_all caught (attempts le (path ?m1) (the_bot ?m1) files)" using rest by simp
      moreover have "\<forall>g \<in> set files. suffix ''.py'' g \<longrightarrow> error_key g \<notin> fst ` set (errors ?m1)"
        using Cons.prems(3) by simp
      ultimately obtain m' where "load_cogs_loop le files ?m1 = (Return (), m')"
        and "length (cogs m') = length (cogs ?m1) + length (filter loaded (attempts le (path ?m1) (the_bot ?m1) files))"
        and "length (errors m') = length (errors ?m1)
               + length (filter (\<lambda>r. \<not> loaded r) (attempts le (path ?m1) (the_bot ?m1) files))"
        using Cons.IH[of ?m1] d by blast
      with True le Return show ?thesis by simp
    next
      case (Raise e)
      with c have exc: "is_Exception e" by simp
      let ?m1 = "log_to ERROR (FailedToLoadCog f e)
                    (m\<lparr>the_bot := b, errors := AList.update (error_key f) e (errors m)\<rparr>)"
      have "list_all caught (attempts le (path ?m1) (the_bot ?m1) files)" using rest by simp
      moreover have "\<forall>g \<in> set files. suffix ''.py'' g \<longrightarrow> error_key g \<notin> fst ` set (errors ?m1)"
      proof (intro ballI impI)
        fix g assume g: "g \<in> set files" "suffix ''.py'' g"
        with nf have "g \<noteq> f" by auto
        with g True have "error_key g \<noteq> error_key f" by (auto dest: error_key_inj)
        moreover from g Cons.prems(3) have "error_key g \<notin> fst ` set (errors m)" by simp
        ultimately show "error_key g \<notin> fst ` set (errors ?m1)" by (simp add: dom_update)
      qed
      ultimately obtain m' where "load_cogs_loop le files ?m1 = (Return (), m')"
        and "length (cogs m') = length (cogs ?m1) + length (filter loaded (attempts le (path ?m1) (the_bot ?m1) files))"
        and "length (errors m') = length (errors ?m1)
               + length (filter (\<lambda>r. \<not> loaded r) (attempts le (path ?m1) (the_bot ?m1) files))"
        using Cons.IH[of ?m1] d by blast
      moreover from Cons.prems(3) True have "error_key f \<notin> fst ` set (errors m)" by simp
      ultimately show ?thesis using True le Raise exc by (simp add: update_length)
    qed
  qed
qed

lemma recording_loop:
  "load_cogs_loop (recording le) files m = (r, m') \<Longrightarrow>
     prefix (snd (the_bot m'))
            (snd (the_bot m) @ map (extension_name (path m)) (filter (suffix ''.py'') files))
     \<and> (r = Return () \<longrightarrow>
          snd (the_bot m') = snd (the_bot m) @ map (extension_name (path m)) (filter (suffix ''.py'') files))"
proof (induction files arbitrary: m)
  case Nil
  then show ?case by simp
next
  case (Cons f files)
  show ?case
  proof (cases "suffix ''.py'' f")
    case False
    with Cons show ?thesis by simp
  next
    case True
    obtain o' b where le: "le (fst (the_bot m)) (extension_name (path m) f) = (o', b)"
      by (cases "le (fst (the_bot m)) (extension_name (path m) f)")
    let ?b = "(b, snd (the_bot m) @ [extension_name (path m) f])"
    have rec: "recording le (the_bot m) (extension_name (path m) f) = (o', ?b)"
      by (simp add: recording_def le)
    show ?thesis
    proof (cases o')
      case (Return u)
      with Cons.prems True rec
      have "load_cogs_loop (recording le) files (m\<lparr>the_bot := ?b, cogs := cogs m @ [f]\<rparr>) = (r, m')"
        by simp
      from Cons.IH[OF this] True show ?thesis by simp
    next
      case (Raise e)
      show ?thesis
      proof (cases "is_Exception e")
        case False
        with Cons.prems True rec Raise show ?thesis by auto
      next
        case exc: True
        with Cons.prems True rec Raise
        have "load_cogs_loop (recording le) files
                 (log_to ERROR (FailedToLoadCog f e)
                    (m\<lparr>the_bot := ?b, errors := AList.update (error_key f) e (errors m)\<rparr>)) = (r, m')"
          by simp
        from Cons.IH[OF this] True show ?thesis by simp
      qed
    qed
  qed
qed

lemma loop_Return_cogs:
  "load_cogs_loop le files m = (Return (), m') \<Longrightarrow>
   cogs m' = cogs m @ loaded_files le (path m) (the_bot m) files"
proof (induction files arbitrary: m)
  case Nil
  then show ?case by simp
next
  case (Cons f files)
  show ?case
  proof (cases "suffix ''.py'' f")
    case False
    with Cons show ?thesis by simp
  next
    case True
    obtain o' b where le: "le (the_bot m) (extension_name (path m) f) = (o', b)"
      by (cases "le (the_bot m) (extension_name (path m) f)")
    show ?thesis
    proof (cases o')
      case (Return u)
      with Cons.prems True le
      have "load_cogs_loop le files (m\<lparr>the_bot := b, cogs := cogs m @ [f]\<rparr>) = (Return (), m')" by simp
      from Cons.IH[OF this] True le Return show ?thesis by simp
    next
      case (Raise e)
      show ?thesis
      proof (cases "is_Exception e")
        case False
        with Cons.prems True le Raise show ?thesis by simp
      next
        case exc: True
        with Cons.prems True le Raise
        have "load_cogs_loop le files
                 (log_to ERROR (FailedToLoadCog f e)
                    (m\<lparr>the_bot := b, errors := AList.update (error_key f) e (errors m)\<rparr>)) = (Return (), m')"
          by simp
        from Cons.IH[OF this] True le Raise show ?thesis by simp
      qed
    qed
  qed
qed

lemma loop_Return_errors:
  "load_cogs_loop le files m = (Return (), m') \<Longrightarrow>
   map_of (errors m')
     = map_of (errors m)
       ++ map_of (rev (map (\<lambda>fe. (error_key (fst fe), snd fe)) (failures le (path m) (the_bot m) files)))"
proof (induction files arbitrary: m)
  case Nil
  then show ?case by simp
next
  case (Cons f files)
  show ?case
  proof (cases "suffix ''.py'' f")
    case False
    with Cons show ?thesis by simp
  next
    case True
    obtain o' b where le: "le (the_bot m) (extension_name (path m) f) = (o', b)"
      by (cases "le (the_bot m) (extension_name (path m) f)")
    show ?thesis
    proof (cases o')
      case (Return u)
      with Cons.prems True le
      have "load_cogs_loop le files (m\<lparr>the_bot := b, cogs := cogs m @ [f]\<rparr>) = (Return (), m')" by simp
      from Cons.IH[OF this] True le Return show ?thesis by simp
    next
      case (Raise e)
      show ?thesis
      proof (cases "is_Exception e")
        case False
        with Cons.prems True le Raise show ?thesis by simp
      next
        case exc: True
        with Cons.prems True le Raise
        have "load_cogs_loop le files
                 (log_to ERROR (FailedToLoadCog f e)
                    (m\<lparr>the_bot := b, errors := AList.update (error_key f) e (errors m)\<rparr>)) = (Return (), m')"
          by simp
        from Cons.IH[OF this] True le Raise show ?thesis
          by (auto simp: fun_eq_iff map_add_def update_conv' split: option.splits)
      qed
    qed
  qed
qed

lemma loop_Return_same_errors:
  "load_cogs_loop le files m = (Return (), m') \<Longrightarrow>
   list_all (\<lambda>fe. map_of (errors m) (error_key (fst fe)) = Some (snd fe))
            (failures le (path m) (the_bot m) files) \<Longrightarrow>
   errors m' = errors m"
proof (induction files arbitrary: m)
  case Nil
  then show ?case by simp
next
  case (Cons f files)
  show ?case
  proof (cases "suffix ''.py'' f")
    case False
    with Cons show ?thesis by simp
  next
    case True
    obtain o' b where le: "le (the_bot m) (extension_name (path m) f) = (o', b)"
      by (cases "le (the_bot m) (extension_name (path m) f)")
    show ?thesis
    proof (cases o')
      case (Return u)
      with Cons.prems True le
      have "load_cogs_loop le files (m\<lparr>the_bot := b, cogs := cogs m @ [f]\<rparr>) = (Return (), m')"
        and "list_all (\<lambda>fe. map_of (errors m) (error_key (fst fe)) = Some (snd fe))
               (failures le (path m) b files)"
        by simp_all
      from Cons.IH[of "m\<lparr>the_bot := b, cogs := cogs m @ [f]\<rparr>"] this show ?thesis by simp
    next
      case (Raise e)
      show ?thesis
      proof (cases "is_Exception e")
        case False
        with Cons.prems True le Raise show ?thesis by simp
      next
        case exc: True
        from Cons.prems(2) True le Raise
        have same: "map_of (errors m) (error_key f) = Some e"
          and rest: "list_all (\<lambda>fe. map_of (errors m) (error_key (fst fe)) = Some (snd fe))
               (failures le (path m) b files)"
          by simp_all
        from same have upd: "AList.update (error_key f) e (errors m) = errors m"
          by (rule update_triv)
        let ?m1 = "log_to ERROR (FailedToLoadCog f e)
                    (m\<lparr>the_bot := b, errors := AList.update (error_key f) e (errors m)\<rparr>)"
        from exc Cons.prems(1) True le Raise
        have "load_cogs_loop le files ?m1 = (Return (), m')" by simp
        moreover from rest upd
        have "list_all (\<lambda>fe. map_of (errors ?m1) (error_key (fst fe)) = Some (snd fe))
               (failures le (path ?m1) (the_bot ?m1) files)" by simp
        ultimately have "errors m' = errors ?m1" by (rule Cons.IH)
        with upd show ?thesis by simp
      qed
    qed
  qed
qed

lemma loop_uncaught:
  "find (\<lambda>r. \<not> caught r) (attempts le (path m) (the_bot m) files) = Some (Raise e) \<Longrightarrow>
   fst (load_cogs_loop le files m) = Raise e"
proof (induction files arbitrary: m)
  case Nil
  then show ?case by simp
next
  case (Cons f files)
  show ?case
  proof (cases "suffix ''.py'' f")
    case False
    with Cons show ?thesis by simp
  next
    case True
    obtain o' b where le: "le (the_bot m) (extension_name (path m) f) = (o', b)"
      by (cases "le (the_bot m) (extension_name (path m) f)")
    show ?thesis
    proof (cases o')
      case (Return u)
      with Cons.prems True le
      have "find (\<lambda>r. \<not> caught r) (attempts le (path m) b files) = Some (Raise e)" by simp
      then have "fst (load_cogs_loop le files (m\<lparr>the_bot := b, cogs := cogs m @ [f]\<rparr>)) = Raise e"
        using Cons.IH[of "m\<lparr>the_bot := b, cogs := cogs m @ [f]\<rparr>"] by simp
      with True le Return show ?thesis by simp
    next
      case (Raise e')
      show ?thesis
      proof (cases "is_Exception e'")
        case False
        with Cons.prems True le Raise show ?thesis by simp
      next
        case exc: True
        let ?m1 = "log_to ERROR (FailedToLoadCog f e')
                    (m\<lparr>the_bot := b, errors := AList.update (error_key f) e' (errors m)\<rparr>)"
        from exc Cons.prems True le Raise
        have "find (\<lambda>r. \<not> caught r) (attempts le (path m) b files) = Some (Raise e)" by simp
        then have "fst (load_cogs_loop le files ?m1) = Raise e"
          using Cons.IH[of ?m1] by simp
        with exc True le Raise show ?thesis by simp
      qed
    qed
  qed
qed

lemma find_uncaught:
  "\<not> list_all caught rs \<Longrightarrow> \<exists>e. find (\<lambda>r. \<not> caught r) rs = Some (Raise e) \<and> \<not> is_Exception e"
proof (induction rs)
  case Nil
  then show ?case by simp
next
  case (Cons r rs)
  then show ?case by (cases r) auto
qed

text \<open>
  C2. On a manager as \<^verbatim>\<open>__init__\<close> leaves it (no names, no failures) and a listing that
  names every file once: if every load attempt either returns or raises an exception that
  \<^verbatim>\<open>except Exception\<close> catches, \<^verbatim>\<open>load_cogs\<close> returns; the loaded list holds the names of
  the files whose attempt returned, one per such attempt, the failures mapping has one entry
  (under a key of its own) per attempt that raised, and the two counts add up to the number of
  \<^verbatim>\<open>.py\<close> files of the listing, so every unit is attempted whatever happened to the ones
  before it. If some attempt raises an exception that is not derived from \<^verbatim>\<open>Exception\<close>,
  \<^verbatim>\<open>load_cogs\<close> raises the first such exception.
\<close>

theorem load_cogs_counts:
  assumes "listdir env (path m) = Return files"
    and "distinct files"
    and "cogs m = []" and "errors m = []"
  shows "(list_all caught (attempts (load_extension env) (path m) (the_bot m) files) \<longrightarrow>
          (\<exists>m'. load_cogs env m = (Return (cogs m', errors m'), m')
            \<and> cogs m' = loaded_files (load_extension env) (path m) (the_bot m) files
            \<and> length (cogs m')
                = length (filter loaded (attempts (load_extension env) (path m) (the_bot m) files))
            \<and> length (errors m')
                = length (filter (\<lambda>r. \<not> loaded r)
                            (attempts (load_extension env) (path m) (the_bot m) files))
            \<and> length (cogs m') + length (errors m') = length (filter (suffix ''.py'') files)
            \<and> distinct (map fst (errors m'))))
       \<and> (\<not> list_all caught (attempts (load_extension env) (path m) (the_bot m) files) \<longrightarrow>
            (\<exists>e. find (\<lambda>r. \<not> caught r) (attempts (load_extension env) (path m) (the_bot m) files)
                    = Some (Raise e)
                 \<and> \<not> is_Exception e
                 \<and> fst (load_cogs env m) = Raise e))"
proof (intro conjI impI)
  let ?A = "attempts (load_extension env) (path m) (the_bot m) files"
  assume all: "list_all caught ?A"
  from assms(4) have "\<forall>f \<in> set files. suffix ''.py'' f \<longrightarrow> error_key f \<notin> fst ` set (errors m)"
    by simp
  from loop_counts[OF all assms(2) this]
  obtain m' where loop: "load_cogs_loop (load_extension env) files m = (Return (), m')"
    and n: "length (cogs m') = length (cogs m) + length (filter loaded ?A)"
    and e: "length (errors m') = length (errors m) + length (filter (\<lambda>r. \<not> loaded r) ?A)"
    by blast
  have "length (filter loaded xs) + length (filter (\<lambda>r. \<not> loaded r) xs) = length xs"
    for xs :: "unit outcome list"
    by (induction xs) auto
  with n e assms(3,4) attempts_length[of "load_extension env" "path m" "the_bot m" files]
  have total: "length (cogs m') + length (errors m') = length (filter (suffix ''.py'') files)"
    by simp
  from loop_distinct_keys[OF loop] assms(4) have d: "distinct (map fst (errors m'))" by simp
  from loop_Return_cogs[OF loop] assms(3)
  have names: "cogs m' = loaded_files (load_extension env) (path m) (the_bot m) files" by simp
  from loop assms(1) have "load_cogs env m = (Return (cogs m', errors m'), m')"
    by (simp add: load_cogs_def)
  with names n e total d assms(3,4)
  show "\<exists>m'. load_cogs env m = (Return (cogs m', errors m'), m')
            \<and> cogs m' = loaded_files (load_extension env) (path m) (the_bot m) files
            \<and> length (cogs m') = length (filter loaded ?A)
            \<and> length (errors m') = length (filter (\<lambda>r. \<not> loaded r) ?A)
            \<and> length (cogs m') + length (errors m') = length (filter (suffix ''.py'') files)
            \<and> distinct (map fst (errors m'))"
    by auto
next
  let ?A = "attempts (load_extension env) (path m) (the_bot m) files"
  assume "\<not> list_all caught ?A"
  from find_uncaught[OF this] obtain e
    where f: "find (\<lambda>r. \<not> caught r) ?A = Some (Raise e)" and ne: "\<not> is_Exception e"
    by blast
  from loop_uncaught[OF f] have "fst (load_cogs_loop (load_extension env) files m) = Raise e" .
  with assms(1) have "fst (load_cogs env m) = Raise e"
    by (cases "load_cogs_loop (load_extension env) files m") (simp add: load_cogs_def)
  with f ne
  show "\<exists>e. find (\<lambda>r. \<not> caught r) ?A = Some (Raise e) \<and> \<not> is_Exception e
            \<and> fst (load_cogs env m) = Raise e"
    by blast
qed

theorem load_cogs_counts_witness:
  "listdir two_units_env (path two_units_manager) = Return [''a.py'', ''notes.txt'', ''b.py'']
   \<and> distinct [''a.py'', ''notes.txt'', ''b.py'']
   \<and> attempts (load_extension two_units_env) (path two_units_manager) (the_bot two_units_manager)
        [''a.py'', ''notes.txt'', ''b.py'']
      = [Return (), Raise (ExtensionNotFound ''.srv.bot.cog.b'')]
   \<and> (\<exists>m'. load_cogs two_units_env two_units_manager = (Return (cogs m', errors m'), m')
          \<and> cogs m' = [''a.py'']
          \<and> length (cogs m') = 1 \<and> length (errors m') = 1
          \<and> length (cogs m') + length (errors m') = 2)
   \<and> attempts (load_extension (raising_env KeyboardInterrupt)) (path raising_manager)
        (the_bot raising_manager) [''a.py'']
      = [Raise KeyboardInterrupt]
   \<and> fst (load_cogs (raising_env KeyboardInterrupt) raising_manager) = Raise KeyboardInterrupt"
proof -
  let ?files = "[''a.py'', ''notes.txt'', ''b.py'']"
  let ?A = "attempts (load_extension two_units_env) (path two_units_manager)
              (the_bot two_units_manager) ?files"
  have h1: "listdir two_units_env (path two_units_manager) = Return ?files"
    by (simp add: two_units_env_def)
  have h2: "distinct ?files" by simp
  have h3: "cogs two_units_manager = []" by (simp add: two_units_manager_def CogManager_init_def)
  have h4: "errors two_units_manager = []" by (simp add: two_units_manager_def CogManager_init_def)
  have a: "?A = [Return (), Raise (ExtensionNotFound ''.srv.bot.cog.b'')]"
    by code_simp
  then have h5: "list_all caught ?A" by simp
  have l: "loaded_files (load_extension two_units_env) (path two_units_manager)
             (the_bot two_units_manager) ?files = [''a.py'']"
    by code_simp
  from load_cogs_counts[OF h1 h2 h3 h4] h5 obtain m'
    where r: "load_cogs two_units_env two_units_manager = (Return (cogs m', errors m'), m')"
      and c: "cogs m' = loaded_files (load_extension two_units_env) (path two_units_manager)
                          (the_bot two_units_manager) ?files"
      and n: "length (cogs m') = length (filter loaded ?A)"
      and e: "length (errors m') = length (filter (\<lambda>r. \<not> loaded r) ?A)"
    by blast
  from c l have c1: "cogs m' = [''a.py'']" by simp
  from n a have n1: "length (cogs m') = 1" by simp
  from e a have e1: "length (errors m') = 1" by simp
  from n1 e1 have "length (cogs m') + length (errors m') = 2" by simp
  with r c1 n1 e1 have first: "\<exists>m'. load_cogs two_units_env two_units_manager = (Return (cogs m', errors m'), m')
          \<and> cogs m' = [''a.py'']
          \<and> length (cogs m') = 1 \<and> length (errors m') = 1
          \<and> length (cogs m') + length (errors m') = 2"
    by blast
  let ?env = "raising_env KeyboardInterrupt"
  let ?B = "attempts (load_extension ?env) (path raising_manager) (the_bot raising_manager) [''a.py'']"
  have k1: "listdir ?env (path raising_manager) = Return [''a.py'']"
    by (simp add: raising_env_def)
  have k2: "distinct [''a.py'']" by simp
  have k3: "cogs raising_manager = []" by (simp add: raising_manager_def CogManager_init_def)
  have k4: "errors raising_manager = []" by (simp add: raising_manager_def CogManager_init_def)
  have b: "?B = [Raise KeyboardInterrupt]" by code_simp
  then have k5: "\<not> list_all caught ?B" by simp
  from load_cogs_counts[OF k1 k2 k3 k4] k5 obtain e
    where "find (\<lambda>r. \<not> caught r) ?B = Some (Raise e)"
      and "fst (load_cogs ?env raising_manager) = Raise e"
    by blast
  with b have second: "fst (load_cogs ?env raising_manager) = Raise KeyboardInterrupt" by simp
  from h1 h2 a first b second show ?thesis by blast
qed

text \<open>
  Without the two restrictions the statement fails. A unit whose load raises
  \<^verbatim>\<open>SystemExit\<close> makes \<^verbatim>\<open>load_cogs\<close> itself raise. And on a manager that has loaded
  before, a pass in which both attempts raise still returns one loaded name.
\<close>

theorem load_cogs_counts_fail:
  "listdir (raising_env SystemExit) (path raising_manager) = Return [''a.py'']
   \<and> attempts (load_extension (raising_env SystemExit)) (path raising_manager)
        (the_bot raising_manager) [''a.py'']
       = [Raise SystemExit]
   \<and> fst (load_cogs (raising_env SystemExit) raising_manager) = Raise SystemExit
   \<and> attempts (load_extension two_units_env)
        (path (snd (load_cogs two_units_env two_units_manager)))
        (the_bot (snd (load_cogs two_units_env two_units_manager)))
        [''a.py'', ''notes.txt'', ''b.py'']
       = [Raise (OtherException ''ExtensionAlreadyLoaded'' ''.srv.bot.cog.a''),
          Raise (ExtensionNotFound ''.srv.bot.cog.b'')]
   \<and> fst (load_cogs two_units_env (snd (load_cogs two_units_env two_units_manager)))
       = Return ([''a.py''],
                 [(''cogs.b'', ExtensionNotFound ''.srv.bot.cog.b''),
                  (''cogs.a'', OtherException ''ExtensionAlreadyLoaded'' ''.srv.bot.cog.a'')])"
  by code_simp

text \<open>
  C9. \<^verbatim>\<open>self.cogs\<close> and \<^verbatim>\<open>self.errors\<close> are never cleared. Of two successive calls of
  \<^verbatim>\<open>load_cogs\<close> that return, the second returns the loaded list of the first followed by
  the names loaded in the second pass, and the failures mapping of the first updated with the
  failures of the second pass: every key of the first is kept, and under a key whose unit fails
  again stands the newer exception. The second result differs from the first whenever the
  second pass loads a unit; it is the same when the second pass loads nothing and every
  failure repeats an entry of the first result. So the operation is not idempotent in general.
\<close>

theorem load_cogs_cumulative:
  assumes "load_cogs env m = (Return r1, m1)"
    and "listdir env' (path m1) = Return files"
    and "load_cogs env' m1 = (Return r2, m2)"
  shows "fst r2 = fst r1 @ loaded_files (load_extension env') (path m1) (the_bot m1) files
       \<and> prefix (fst r1) (fst r2)
       \<and> map_of (snd r2)
           = map_of (snd r1)
             ++ map_of (rev (map (\<lambda>fe. (error_key (fst fe), snd fe))
                               (failures (load_extension env') (path m1) (the_bot m1) files)))
       \<and> fst ` set (snd r1) \<subseteq> fst ` set (snd r2)
       \<and> (loaded_files (load_extension env') (path m1) (the_bot m1) files \<noteq> [] \<longrightarrow> r2 \<noteq> r1)
       \<and> (loaded_files (load_extension env') (path m1) (the_bot m1) files = []
           \<and> list_all (\<lambda>fe. map_of (snd r1) (error_key (fst fe)) = Some (snd fe))
                       (failures (load_extension env') (path m1) (the_bot m1) files)
           \<longrightarrow> r2 = r1)
       \<and> (\<exists>(env0 :: string list cog_env) m0.
             fst (load_cogs env0 (snd (load_cogs env0 m0))) \<noteq> fst (load_cogs env0 m0))"
proof -
  let ?L = "loaded_files (load_extension env') (path m1) (the_bot m1) files"
  let ?F = "failures (load_extension env') (path m1) (the_bot m1) files"
  from assms(1) have r1: "r1 = (cogs m1, errors m1)"
    by (auto simp: load_cogs_def split: outcome.splits prod.splits)
  from assms(2,3) have loop: "load_cogs_loop (load_extension env') files m1 = (Return (), m2)"
    and r2: "r2 = (cogs m2, errors m2)"
    by (auto simp: load_cogs_def split: outcome.splits prod.splits)
  from loop_Return_cogs[OF loop] r1 r2 have names: "fst r2 = fst r1 @ ?L" by simp
  then have pre: "prefix (fst r1) (fst r2)" by simp
  from loop_Return_errors[OF loop] r1 r2
  have maps: "map_of (snd r2)
           = map_of (snd r1) ++ map_of (rev (map (\<lambda>fe. (error_key (fst fe), snd fe)) ?F))"
    by simp
  from loop_facts[OF loop] r1 r2 have keys: "fst ` set (snd r1) \<subseteq> fst ` set (snd r2)" by simp
  from names have diff: "?L \<noteq> [] \<longrightarrow> r2 \<noteq> r1" by auto
  have same: "?L = [] \<and> list_all (\<lambda>fe. map_of (snd r1) (error_key (fst fe)) = Some (snd fe)) ?F
              \<longrightarrow> r2 = r1"
  proof
    assume a: "?L = [] \<and> list_all (\<lambda>fe. map_of (snd r1) (error_key (fst fe)) = Some (snd fe)) ?F"
    with r1 have "list_all (\<lambda>fe. map_of (errors m1) (error_key (fst fe)) = Some (snd fe)) ?F"
      by simp
    from loop_Return_same_errors[OF loop this] have "errors m2 = errors m1" .
    moreover from names a r1 r2 have "cogs m2 = cogs m1" by simp
    ultimately show "r2 = r1" using r1 r2 by simp
  qed
  have ex: "fst (load_cogs two_units_env (snd (load_cogs two_units_env two_units_manager)))
                 \<noteq> fst (load_cogs two_units_env two_units_manager)"
    by code_simp
  from names pre maps keys diff same ex show ?thesis by blast
qed

theorem load_cogs_cumulative_witness:
  "fst (load_cogs two_units_env two_units_manager)
     = Return ([''a.py''], [(''cogs.b'', ExtensionNotFound ''.srv.bot.cog.b'')])
   \<and> fst (load_cogs two_units_env (snd (load_cogs two_units_env two_units_manager)))
     = Return ([''a.py''],
               [(''cogs.b'', ExtensionNotFound ''.srv.bot.cog.b''),
                (''cogs.a'', OtherException ''ExtensionAlreadyLoaded'' ''.srv.bot.cog.a'')])
   \<and> prefix [''a.py''] [''a.py'']
   \<and> fst ` set [(''cogs.b'', ExtensionNotFound ''.srv.bot.cog.b'')]
       \<subseteq> fst ` set [(''cogs.b'', ExtensionNotFound ''.srv.bot.cog.b''),
                     (''cogs.a'', OtherException ''ExtensionAlreadyLoaded'' ''.srv.bot.cog.a'')]
   \<and> fst (load_cogs repo_env repo_manager)
     = Return ([], [(''cogs.example'', ExtensionNotFound ''.home.user.bot.cog.example'')])
   \<and> fst (load_cogs repo_env (snd (load_cogs repo_env repo_manager)))
     = Return ([], [(''cogs.example'', ExtensionNotFound ''.home.user.bot.cog.example'')])"
proof -
  let ?files = "[''a.py'', ''notes.txt'', ''b.py'']"
  let ?r1 = "([''a.py''], [(''cogs.b'', ExtensionNotFound ''.srv.bot.cog.b'')])"
  let ?r2 = "([''a.py''],
               [(''cogs.b'', ExtensionNotFound ''.srv.bot.cog.b''),
                (''cogs.a'', OtherException ''ExtensionAlreadyLoaded'' ''.srv.bot.cog.a'')])"
  let ?m1 = "snd (load_cogs two_units_env two_units_manager)"
  let ?m2 = "snd (load_cogs two_units_env ?m1)"
  have f1: "fst (load_cogs two_units_env two_units_manager) = Return ?r1" by code_simp
  have f2: "fst (load_cogs two_units_env ?m1) = Return ?r2" by code_simp
  have l: "listdir two_units_env (path ?m1) = Return ?files" by (simp add: two_units_env_def)
  from f1 have h1: "load_cogs two_units_env two_units_manager = (Return ?r1, ?m1)"
    by (simp add: prod_eq_iff)
  from f2 have h2: "load_cogs two_units_env ?m1 = (Return ?r2, ?m2)"
    by (simp add: prod_eq_iff)
  from load_cogs_cumulative[OF h1 l h2]
  have p: "prefix (fst ?r1) (fst ?r2)" and k: "fst ` set (snd ?r1) \<subseteq> fst ` set (snd ?r2)"
    by blast+
  let ?q = "([], [(''cogs.example'', ExtensionNotFound ''.home.user.bot.cog.example'')])
            :: string list \<times> (string \<times> py_exc) list"
  let ?n1 = "snd (load_cogs repo_env repo_manager)"
  let ?n2 = "snd (load_cogs repo_env ?n1)"
  have g1: "fst (load_cogs repo_env repo_manager) = Return ?q" by code_simp
  have lq: "listdir repo_env (path ?n1) = Return [''example.py'']" by code_simp
  have "fst (load_cogs repo_env ?n1) = Return ?q" by code_simp
  then obtain q2 where g2: "fst (load_cogs repo_env ?n1) = Return q2" by blast
  from g1 have i1: "load_cogs repo_env repo_manager = (Return ?q, ?n1)" by (simp add: prod_eq_iff)
  from g2 have i2: "load_cogs repo_env ?n1 = (Return q2, ?n2)" by (simp add: prod_eq_iff)
  have none: "loaded_files (load_extension repo_env) (path ?n1) (the_bot ?n1) [''example.py''] = []"
    by code_simp
  have again: "list_all (\<lambda>fe. map_of (snd ?q) (error_key (fst fe)) = Some (snd fe))
                 (failures (load_extension repo_env) (path ?n1) (the_bot ?n1) [''example.py''])"
    by code_simp
  from load_cogs_cumulative[OF i1 lq i2] none again have "q2 = ?q" by blast
  with g2 have g3: "fst (load_cogs repo_env ?n1) = Return ?q" by simp
  from f1 f2 p k g1 g3 show ?thesis by simp
qed

text \<open>
  The second result need not contain every entry of the first: a unit that fails in both passes
  with different exceptions keeps its key and loses the first exception. And a second call can
  return what the first returned, with the accounting of the pass intact: in the repository's
  directory the only unit fails in both passes in the same way.
\<close>

theorem load_cogs_entry_replaced:
  "fst (load_cogs flaky_env flaky_manager)
     = Return ([], [(''cogs.a'', OtherException ''ExtensionFailed'' ''.srv.bot.cog.a, attempt 0'')])
   \<and> fst (load_cogs flaky_env (snd (load_cogs flaky_env flaky_manager)))
     = Return ([], [(''cogs.a'', OtherException ''ExtensionFailed'' ''.srv.bot.cog.a, attempt 1'')])
   \<and> (''cogs.a'', OtherException ''ExtensionFailed'' ''.srv.bot.cog.a, attempt 0'')
       \<notin> set [(''cogs.a'', OtherException ''ExtensionFailed'' ''.srv.bot.cog.a, attempt 1'')]
   \<and> fst (load_cogs repo_env (snd (load_cogs repo_env repo_manager)))
       = fst (load_cogs repo_env repo_manager)"
  by code_simp

text \<open>
  C10. With the default directory \<^verbatim>\<open>cogs\<close>, the names \<^verbatim>\<open>load_cogs\<close> passes to
  \<^verbatim>\<open>load_extension\<close> are, in order and for the \<^verbatim>\<open>.py\<close> files of the listing, the
  absolute directory path with every \<^verbatim>\<open>/\<close> replaced by \<^verbatim>\<open>.\<close> and its last character
  removed, then \<^verbatim>\<open>.\<close> and the file name without its last three characters (all of them
  when the call returns, a first part of them when an exception leaves it). When the call
  returns, the failures mapping it returns holds, for every file whose attempt raised, the
  exception under the key \<^verbatim>\<open>cogs.\<close> followed by the file name without its last three
  characters, and nothing else. For no file is the name passed equal to that key.
\<close>

theorem extension_names_passed:
  assumes "ld (path_join cwd ''cogs'') = Return files"
    and "load_cogs \<lparr>listdir = ld, load_extension = recording le\<rparr>
           (CogManager_init cwd (b, []) ''cogs'' lg) = (r, m')"
  shows "prefix (snd (the_bot m'))
           (map (\<lambda>file. butlast (map (\<lambda>c. if c = CHR ''/'' then CHR ''.'' else c) (path_join cwd ''cogs''))
                          @ ''.'' @ take (length file - 3) file)
                (filter (suffix ''.py'') files))
       \<and> (\<forall>x. r = Return x \<longrightarrow>
            snd (the_bot m')
              = map (\<lambda>file. butlast (map (\<lambda>c. if c = CHR ''/'' then CHR ''.'' else c) (path_join cwd ''cogs''))
                             @ ''.'' @ take (length file - 3) file)
                    (filter (suffix ''.py'') files))
       \<and> (\<forall>cs es. r = Return (cs, es) \<longrightarrow>
            map_of es
              = map_of (rev (map (\<lambda>fe. (''cogs.'' @ take (length (fst fe) - 3) (fst fe), snd fe))
                                (failures (recording le) (path_join cwd ''cogs'') (b, []) files))))
       \<and> (\<forall>file. error_key file = ''cogs.'' @ take (length file - 3) file)
       \<and> (\<forall>file. butlast (map (\<lambda>c. if c = CHR ''/'' then CHR ''.'' else c) (path_join cwd ''cogs''))
                    @ ''.'' @ take (length file - 3) file
                  \<noteq> ''cogs.'' @ take (length file - 3) file)
       \<and> (\<forall>file. butlast (map (\<lambda>c. if c = CHR ''/'' then CHR ''.'' else c) (path_join cwd ''cogs''))
                    @ ''.'' @ take (length file - 3) file
                  \<noteq> error_key file)"
proof -
  let ?m = "CogManager_init cwd (b, []) ''cogs'' lg :: ('a \<times> string list) cog_manager"
  obtain r0 where loop: "load_cogs_loop (recording le) files ?m = (r0, m')"
    and r: "\<forall>x. r = Return x \<longrightarrow> r0 = Return () \<and> x = (cogs m', errors m')"
    using assms
    by (cases "load_cogs_loop (recording le) files ?m")
       (auto simp: load_cogs_def CogManager_init_def split: outcome.splits)
  from recording_loop[OF loop] r
  have names: "prefix (snd (the_bot m'))
                 (map (extension_name (path_join cwd ''cogs'')) (filter (suffix ''.py'') files))"
    and all: "\<forall>x. r = Return x \<longrightarrow>
          snd (the_bot m') = map (extension_name (path_join cwd ''cogs'')) (filter (suffix ''.py'') files)"
    by (auto simp: CogManager_init_def)
  have recorded: "\<forall>cs es. r = Return (cs, es) \<longrightarrow>
            map_of es
              = map_of (rev (map (\<lambda>fe. (error_key (fst fe), snd fe))
                                (failures (recording le) (path_join cwd ''cogs'') (b, []) files)))"
  proof (intro allI impI)
    fix cs es
    assume "r = Return (cs, es)"
    with r have l: "load_cogs_loop (recording le) files ?m = (Return (), m')" and es: "es = errors m'"
      using loop by auto
    from loop_Return_errors[OF l] es
    show "map_of es
              = map_of (rev (map (\<lambda>fe. (error_key (fst fe), snd fe))
                                (failures (recording le) (path_join cwd ''cogs'') (b, []) files)))"
      by (simp add: CogManager_init_def)
  qed
  have differs: "\<forall>file. extension_name (path_join cwd ''cogs'') file \<noteq> error_key file"
    by (simp add: extension_name_differs)
  have key: "\<forall>file. error_key file = ''cogs.'' @ take (length file - 3) file"
    by (simp add: error_key_literal)
  from names all recorded differs key show ?thesis
    unfolding extension_name_expanded error_key_literal by blast
qed

theorem extension_names_passed_witness:
  "fst (load_cogs
      \<lparr>listdir = (\<lambda>p. Return [''a.py'', ''notes.txt'', ''b.py'']),
       load_extension = recording (bot_loader [''.srv.bot.cog.a''])\<rparr>
      (CogManager_init ''/srv/bot'' ([], []) ''cogs'' []))
     = Return ([''a.py''], [(''cogs.b'', ExtensionNotFound ''.srv.bot.cog.b'')])
   \<and> snd (the_bot (snd (load_cogs
      \<lparr>listdir = (\<lambda>p. Return [''a.py'', ''notes.txt'', ''b.py'']),
       load_extension = recording (bot_loader [''.srv.bot.cog.a''])\<rparr>
      (CogManager_init ''/srv/bot'' ([], []) ''cogs'' []))))
     = [''.srv.bot.cog.a'', ''.srv.bot.cog.b'']
   \<and> failures (recording (bot_loader [''.srv.bot.cog.a''])) ''/srv/bot/cogs'' ([], [])
        [''a.py'', ''notes.txt'', ''b.py'']
     = [(''b.py'', ExtensionNotFound ''.srv.bot.cog.b'')]
   \<and> map_of [(''cogs.b'', ExtensionNotFound ''.srv.bot.cog.b'')]
     = map_of (rev (map (\<lambda>fe. (''cogs.'' @ take (length (fst fe) - 3) (fst fe), snd fe))
           [(''b.py'', ExtensionNotFound ''.srv.bot.cog.b'')]))
   \<and> map_of [(''cogs.b'', ExtensionNotFound ''.srv.bot.cog.b'')] ''cogs.b''
     = Some (ExtensionNotFound ''.srv.bot.cog.b'')
   \<and> error_key ''b.py'' = ''cogs.b''
   \<and> ''.srv.bot.cog.a'' \<noteq> ''cogs.a''
   \<and> ''.srv.bot.cog.b'' \<noteq> ''cogs.b''"
proof -
  let ?ld = "\<lambda>p :: string. Return [''a.py'', ''notes.txt'', ''b.py''] :: string list outcome"
  let ?env = "\<lparr>listdir = ?ld, load_extension = recording (bot_loader [''.srv.bot.cog.a''])\<rparr>"
  let ?m = "CogManager_init ''/srv/bot'' ([], []) ''cogs'' [] :: (string list \<times> string list) cog_manager"
  let ?es = "[(''cogs.b'', ExtensionNotFound ''.srv.bot.cog.b'')]"
  have h1: "?ld (path_join ''/srv/bot'' ''cogs'') = Return [''a.py'', ''notes.txt'', ''b.py'']" by simp
  have f: "fst (load_cogs ?env ?m) = Return ([''a.py''], ?es)" by code_simp
  then have h2: "load_cogs ?env ?m = (Return ([''a.py''], ?es), snd (load_cogs ?env ?m))"
    by (simp add: prod_eq_iff)
  have p: "path_join ''/srv/bot'' ''cogs'' = ''/srv/bot/cogs''" by code_simp
  have fl: "failures (recording (bot_loader [''.srv.bot.cog.a''])) ''/srv/bot/cogs'' ([], [])
        [''a.py'', ''notes.txt'', ''b.py'']
     = [(''b.py'', ExtensionNotFound ''.srv.bot.cog.b'')]"
    by code_simp
  note T = extension_names_passed[OF h1 h2]
  from T have names: "snd (the_bot (snd (load_cogs ?env ?m))) = [''.srv.bot.cog.a'', ''.srv.bot.cog.b'']"
    by (simp add: p suffix_def)
  from T have "map_of ?es
      = map_of (rev (map (\<lambda>fe. (''cogs.'' @ take (length (fst fe) - 3) (fst fe), snd fe))
           (failures (recording (bot_loader [''.srv.bot.cog.a''])) (path_join ''/srv/bot'' ''cogs'')
              ([], []) [''a.py'', ''notes.txt'', ''b.py''])))"
    by blast
  then have rec: "map_of ?es
      = map_of (rev (map (\<lambda>fe. (''cogs.'' @ take (length (fst fe) - 3) (fst fe), snd fe))
           [(''b.py'', ExtensionNotFound ''.srv.bot.cog.b'')]))"
    by (simp only: p fl)
  have look: "map_of ?es ''cogs.b'' = Some (ExtensionNotFound ''.srv.bot.cog.b'')"
    by simp
  from T have key: "error_key ''b.py'' = ''cogs.b''" by simp
  have "''.srv.bot.cog.a'' \<noteq> ''cogs.a''" and "''.srv.bot.cog.b'' \<noteq> ''cogs.b''" by simp_all
  with f names fl rec look key show ?thesis by blast
qed

subsection \<open>Startup\<close>

lemma hello_reply: "responses (hello ia) = responses ia @ [(Content ''Hello!'', False)]"
  by (simp add: hello_def send_message_def)

text \<open>
  One loaded unit and no failure is what the pass reports when the collaborator accepts the
  name it is asked for.
\<close>

lemma load_cogs_one_accepted_unit:
  assumes "listdir env (path_join cwd ''cogs'') = Return [''example.py'']"
    and "load_extension env b (extension_name (path_join cwd ''cogs'') ''example.py'') = (Return (), b')"
  shows "fst (load_cogs env (CogManager_init cwd b ''cogs'' lg)) = Return ([''example.py''], [])"
  using assms by (simp add: load_cogs_def CogManager_init_def suffix_def)

text \<open>
  C5. The specification states that startup with one valid unit (\<^verbatim>\<open>cogs/example.py\<close>, the module
  \<^verbatim>\<open>cogs.example\<close>) reports one loaded unit and no failure. With the repository in
  \<^verbatim>\<open>/home/user/bot\<close> and a collaborator that loads the module \<^verbatim>\<open>cogs.example\<close> when
  asked for it, \<^verbatim>\<open>on_ready\<close> asks for \<^verbatim>\<open>.home.user.bot.cog.example\<close> instead: it reports
  no loaded unit and one failure, and the cog with the \<^verbatim>\<open>hello\<close> command is never added.
\<close>

theorem on_ready_example_unit_not_loaded: "on_ready repo_env ''Bot#0001'' repo_manager =
  (Return (),
   \<lparr>the_bot = [], path = ''/home/user/bot/cogs'',
     logger =
       [(INFO, LoggedInAs ''Bot#0001''),
        (ERROR, FailedToLoadCog ''example.py'' (ExtensionNotFound ''.home.user.bot.cog.example'')),
        (INFO, LoadedCogs []),
        (ERROR, FailedToLoadCogs [(''cogs.example'', ExtensionNotFound ''.home.user.bot.cog.example'')])],
     cogs = [],
     errors = [(''cogs.example'', ExtensionNotFound ''.home.user.bot.cog.example'')]\<rparr>)"
  by code_simp

section \<open>Properties of the configuration loader\<close>

lemma log_to_config_simps [simp]:
  "config (log_to l msg m) = config m"
  "config_file (log_to l msg m) = config_file m"
  by (simp_all add: log_to_def)

text \<open>The sample manager is the one \<^verbatim>\<open>__init__\<close> hands to \<^verbatim>\<open>load_configs\<close>.\<close>

lemma ConfigManager_init_fresh:
  "ConfigManager_init env ''/srv/bot'' () ''data'' [] = load_configs env fresh_config_manager"
  by (simp add: ConfigManager_init_def fresh_config_manager_def)

lemma validate_string_token:
  "map_of kvs ''TOKEN'' = Some (JStr tok) \<Longrightarrow> validate (JObj kvs) CONFIG_SCHEMA = Return ()"
  by (simp add: validate_def CONFIG_SCHEMA_def)

lemma validate_invalid:
  "\<not> has_string_token doc \<Longrightarrow> \<exists>ve. validate doc CONFIG_SCHEMA = Raise (ValidationError ve)"
  by (cases doc) (auto simp: validate_def CONFIG_SCHEMA_def has_string_token_def split: option.splits json.splits)

lemma config_schema_one_error: "length (iter_errors CONFIG_SCHEMA doc) \<le> 1"
  by (cases doc) (auto simp: CONFIG_SCHEMA_def split: option.splits json.splits)

lemma validate_iff: "validate doc CONFIG_SCHEMA = Return () \<longleftrightarrow> has_string_token doc"
  by (cases doc) (auto simp: validate_def CONFIG_SCHEMA_def has_string_token_def split: option.splits json.splits)

text \<open>
  C3. When the configuration file exists and parses to an object whose \<^verbatim>\<open>TOKEN\<close> is a
  string, \<^verbatim>\<open>load_configs\<close> returns after logging success, \<^verbatim>\<open>self.config\<close> is the parsed
  object as it was read, and \<^verbatim>\<open>get_token\<close> returns that string.
\<close>

theorem load_configs_string_token:
  assumes "path_exists env (config_file m)"
    and "read_json env (config_file m) = Return (JObj kvs)"
    and "map_of kvs ''TOKEN'' = Some (JStr tok)"
  shows "load_configs env m = (Return (), log_to INFO ConfigLoaded (m\<lparr>config := JObj kvs\<rparr>))
       \<and> config (snd (load_configs env m)) = JObj kvs
       \<and> get_token (snd (load_configs env m)) = Return (Some (JStr tok))"
  using assms
  by (simp add: load_configs_def bind_outcome_def validate_string_token get_token_def)

theorem load_configs_string_token_witness:
  "path_exists (config_env_of (JObj [(''TOKEN'', JStr ''abc'')])) (config_file fresh_config_manager)
   \<and> read_json (config_env_of (JObj [(''TOKEN'', JStr ''abc'')])) (config_file fresh_config_manager)
       = Return (JObj [(''TOKEN'', JStr ''abc'')])
   \<and> map_of [(''TOKEN'', JStr ''abc'')] ''TOKEN'' = Some (JStr ''abc'')
   \<and> config (snd (load_configs (config_env_of (JObj [(''TOKEN'', JStr ''abc'')])) fresh_config_manager))
       = JObj [(''TOKEN'', JStr ''abc'')]
   \<and> get_token (snd (load_configs (config_env_of (JObj [(''TOKEN'', JStr ''abc'')])) fresh_config_manager))
       = Return (Some (JStr ''abc''))"
proof -
  let ?env = "config_env_of (JObj [(''TOKEN'', JStr ''abc'')])"
  have h1: "path_exists ?env (config_file fresh_config_manager)"
    by (simp add: config_env_of_def)
  have h2: "read_json ?env (config_file fresh_config_manager) = Return (JObj [(''TOKEN'', JStr ''abc'')])"
    by (simp add: config_env_of_def)
  have h3: "map_of [(''TOKEN'', JStr ''abc'')] ''TOKEN'' = Some (JStr ''abc'')"
    by simp
  from load_configs_string_token[OF h1 h2 h3] h1 h2 h3 show ?thesis by blast
qed

text \<open>
  C4. Whenever the load does not succeed (the file is missing, reading or parsing raises, or
  the document is not an object with a string \<^verbatim>\<open>TOKEN\<close>), \<^verbatim>\<open>self.config\<close> is what it was
  before; if that was the empty dictionary of \<^verbatim>\<open>__init__\<close>, \<^verbatim>\<open>get_token\<close> returns
  \<^verbatim>\<open>None\<close>. A document that was read but lacks a string \<^verbatim>\<open>TOKEN\<close> fails the schema
  validation: the \<^verbatim>\<open>ValidationError\<close> is caught and reported as an error record
  \<^verbatim>\<open>"Configuration validation error: ..."\<close>.
\<close>

theorem load_configs_failure:
  assumes "\<not> (path_exists env (config_file m)
              \<and> (\<exists>doc. read_json env (config_file m) = Return doc \<and> has_string_token doc))"
  shows "config (snd (load_configs env m)) = config m
       \<and> (config m = JObj [] \<longrightarrow> get_token (snd (load_configs env m)) = Return None)
       \<and> (\<forall>doc. path_exists env (config_file m) \<and> read_json env (config_file m) = Return doc \<longrightarrow>
            (\<exists>ve. load_configs env m = (Return (), log_to ERROR (ConfigValidationError ve) m)))"
proof -
  have keep: "config (snd (load_configs env m)) = config m"
  proof (cases "path_exists env (config_file m)")
    case False
    then show ?thesis by (simp add: load_configs_def)
  next
    case True
    show ?thesis
    proof (cases "read_json env (config_file m)")
      case (Return doc)
      with True assms have "\<not> has_string_token doc" by simp
      then obtain ve where "validate doc CONFIG_SCHEMA = Raise (ValidationError ve)"
        using validate_invalid by blast
      with True Return show ?thesis by (simp add: load_configs_def bind_outcome_def)
    next
      case (Raise e)
      with True show ?thesis
        by (cases e) (simp_all add: load_configs_def bind_outcome_def)
    qed
  qed
  moreover have "config m = JObj [] \<longrightarrow> get_token (snd (load_configs env m)) = Return None"
    using keep by (simp add: get_token_def)
  moreover have "\<forall>doc. path_exists env (config_file m) \<and> read_json env (config_file m) = Return doc \<longrightarrow>
            (\<exists>ve. load_configs env m = (Return (), log_to ERROR (ConfigValidationError ve) m))"
  proof (intro allI impI)
    fix doc
    assume a: "path_exists env (config_file m) \<and> read_json env (config_file m) = Return doc"
    with assms have "\<not> has_string_token doc" by blast
    then obtain ve where "validate doc CONFIG_SCHEMA = Raise (ValidationError ve)"
      using validate_invalid by blast
    with a have "load_configs env m = (Return (), log_to ERROR (ConfigValidationError ve) m)"
      by (simp add: load_configs_def bind_outcome_def)
    then show "\<exists>ve. load_configs env m = (Return (), log_to ERROR (ConfigValidationError ve) m)"
      by blast
  qed
  ultimately show ?thesis by blast
qed

theorem load_configs_failure_witness:
  "\<not> has_string_token (JObj [(''TOKEN'', JInt 5)])
   \<and> config (snd (load_configs (config_env_of (JObj [(''TOKEN'', JInt 5)])) fresh_config_manager)) = JObj []
   \<and> get_token (snd (load_configs (config_env_of (JObj [(''TOKEN'', JInt 5)])) fresh_config_manager))
       = Return None
   \<and> (\<exists>ve. load_configs (config_env_of (JObj [(''TOKEN'', JInt 5)])) fresh_config_manager
              = (Return (), log_to ERROR (ConfigValidationError ve) fresh_config_manager))"
proof -
  let ?doc = "JObj [(''TOKEN'', JInt 5)]"
  let ?env = "config_env_of ?doc"
  have bad: "\<not> has_string_token ?doc"
    by (simp add: has_string_token_def)
  then have h: "\<not> (path_exists ?env (config_file fresh_config_manager)
              \<and> (\<exists>doc. read_json ?env (config_file fresh_config_manager) = Return doc
                        \<and> has_string_token doc))"
    by (simp add: config_env_of_def)
  have e: "path_exists ?env (config_file fresh_config_manager)
           \<and> read_json ?env (config_file fresh_config_manager) = Return ?doc"
    by (simp add: config_env_of_def)
  have c: "config fresh_config_manager = JObj []"
    by (simp add: fresh_config_manager_def)
  from load_configs_failure[OF h] e c bad show ?thesis by auto
qed

end
